theory Spec2Isabelle
  imports Main "HOL-Library.Sublist"
begin

section \<open>Python values\<close>

text \<open>
  The three tools exchange JSON artifacts. A loaded document is a value of \<open>json\<close>;
  an object is the list of its bindings, read with \<open>map_of\<close>. Numbers are the integers
  (port numbers, counts); strings are lists of code points below 256, so that
  \<open>str.lower\<close>, \<open>str.isalnum\<close> and \<open>str.isdigit\<close> are the Unicode tables on Latin-1.
\<close>

datatype json =
    JNull
  | JBool bool
  | JInt int
  | JStr string
  | JList "json list"
  | JObj "(string \<times> json) list"

datatype py_error = AttributeError | TypeError | KeyError | ValueError | OtherError

type_synonym pydict = "(string \<times> json) list"

text \<open>\<open>bool(v)\<close>: what \<open>if v\<close> and \<open>not v\<close> test.\<close>

fun truthy :: "json \<Rightarrow> bool" where
  "truthy JNull = False"
| "truthy (JBool b) = b"
| "truthy (JInt n) = (n \<noteq> 0)"
| "truthy (JStr s) = (s \<noteq> [])"
| "truthy (JList xs) = (xs \<noteq> [])"
| "truthy (JObj kvs) = (kvs \<noteq> [])"

text \<open>\<open>d.get(k)\<close> and \<open>d.get(k, default)\<close> on a dict.\<close>

definition dict_get :: "pydict \<Rightarrow> string \<Rightarrow> json" where
  "dict_get d k = (case map_of d k of None \<Rightarrow> JNull | Some v \<Rightarrow> v)"

definition dict_get_default :: "pydict \<Rightarrow> string \<Rightarrow> json \<Rightarrow> json" where
  "dict_get_default d k dflt = (case map_of d k of None \<Rightarrow> dflt | Some v \<Rightarrow> v)"

text \<open>\<open>v.get(k)\<close> on any value: only a dict has the method.\<close>

fun py_get :: "json \<Rightarrow> string \<Rightarrow> py_error + json" where
  "py_get (JObj d) k = Inr (dict_get d k)"
| "py_get _ k = Inl AttributeError"

subsection \<open>Strings\<close>

definition py_isdigit :: "char \<Rightarrow> bool" where
  "py_isdigit c =
     (let n = (of_char c :: nat) in (48 \<le> n \<and> n \<le> 57) \<or> n = 178 \<or> n = 179 \<or> n = 185)"

definition py_isalnum :: "char \<Rightarrow> bool" where
  "py_isalnum c =
     (let n = (of_char c :: nat) in
        (48 \<le> n \<and> n \<le> 57) \<or> (65 \<le> n \<and> n \<le> 90) \<or> (97 \<le> n \<and> n \<le> 122) \<or>
        n = 170 \<or> n = 178 \<or> n = 179 \<or> n = 181 \<or> n = 185 \<or> n = 186 \<or>
        (188 \<le> n \<and> n \<le> 190) \<or> (192 \<le> n \<and> n \<le> 214) \<or> (216 \<le> n \<and> n \<le> 246) \<or>
        (248 \<le> n \<and> n \<le> 255))"

definition lower_char :: "char \<Rightarrow> char" where
  "lower_char c =
     (let n = (of_char c :: nat) in
        if (65 \<le> n \<and> n \<le> 90) \<or> (192 \<le> n \<and> n \<le> 214) \<or> (216 \<le> n \<and> n \<le> 222)
        then char_of (n + 32) else c)"

definition py_lower :: "string \<Rightarrow> string" where
  "py_lower s = map lower_char s"

text \<open>\<open>s.split('.')[0]\<close>: the text before the first dot (all of it when there is none).\<close>

definition split_dot_first :: "string \<Rightarrow> string" where
  "split_dot_first s = takeWhile (\<lambda>c. c \<noteq> CHR ''.'') s"

text \<open>\<open>s.replace('.', '_')\<close>.\<close>

definition replace_dots :: "string \<Rightarrow> string" where
  "replace_dots s = map (\<lambda>c. if c = CHR ''.'' then CHR ''_'' else c) s"

text \<open>\<open>term in s\<close> on two strings: \<open>term\<close> occurs in \<open>s\<close> as a contiguous piece.\<close>

fun str_contains :: "string \<Rightarrow> string \<Rightarrow> bool" where
  "str_contains s [] = True"
| "str_contains [] (t # ts) = False"
| "str_contains (c # cs) (t # ts) = (prefix (t # ts) (c # cs) \<or> str_contains cs (t # ts))"

section \<open>Classifier and inventory builder (generate_inventory.py)\<close>

subsection \<open>Hostname normalization\<close>

text \<open>The characters \<open>_safe_hostname\<close> keeps: \<open>c.isalnum() or c in '-_'\<close>.\<close>

definition allowed_char :: "char \<Rightarrow> bool" where
  "allowed_char c = (py_isalnum c \<or> c = CHR ''-'' \<or> c = CHR ''_'')"

definition sanitize :: "string \<Rightarrow> string" where
  "sanitize s = map (\<lambda>c. if allowed_char c then c else CHR ''_'') s"

text \<open>
  \<open>hostname and hostname.lower() != "unknown"\<close>: a falsy hostname stops the test; any
  other value that is not a string has no \<open>lower\<close>.
\<close>

fun hostname_usable :: "json \<Rightarrow> py_error + bool" where
  "hostname_usable (JStr s) = Inr (s \<noteq> [] \<and> py_lower s \<noteq> ''unknown'')"
| "hostname_usable v = (if truthy v then Inl AttributeError else Inr False)"

text \<open>The fallback key \<open>f"host_{ip_address.replace('.', '_')}"\<close>.\<close>

fun ip_fallback :: "json \<Rightarrow> py_error + string" where
  "ip_fallback (JStr ip) = Inr (''host_'' @ replace_dots ip)"
| "ip_fallback _ = Inl AttributeError"

definition prefix_digit :: "string \<Rightarrow> string" where
  "prefix_digit safe_name =
     (if safe_name \<noteq> [] \<and> py_isdigit (hd safe_name) then ''host_'' @ safe_name else safe_name)"

definition safe_hostname :: "json \<Rightarrow> json \<Rightarrow> py_error + string" where
  "safe_hostname hostname ip_address =
     (case hostname_usable hostname of
        Inl e \<Rightarrow> Inl e
      | Inr False \<Rightarrow> ip_fallback ip_address
      | Inr True \<Rightarrow>
          (case hostname of
             JStr s \<Rightarrow>
               (let safe_name = prefix_digit (sanitize (split_dot_first s))
                in if safe_name \<noteq> [] then Inr safe_name else ip_fallback ip_address)
           | _ \<Rightarrow> Inl AttributeError))"

subsection \<open>The inventory tree\<close>

text \<open>
  \<open>_create_base_inventory\<close>: the tree has a fixed shape, so it is a record of its three
  axes. \<open>tiers\<close> is keyed by the pair (tier group, role group); a missing key is the
  \<open>KeyError\<close> of the nested dict access. The constant \<open>vars\<close> of \<open>all\<close> play no part
  in placement and are left out.
\<close>

type_synonym host_vars = "string \<rightharpoonup> json"
type_synonym hosts = "string \<rightharpoonup> host_vars"

record inventory =
  ungrouped :: hosts
  tiers :: "(string \<times> string) \<rightharpoonup> hosts"
  os_types :: "string \<rightharpoonup> hosts"

definition tier_role_groups :: "(string \<times> string) list" where
  "tier_role_groups =
     [(''tier1_core'', ''network''), (''tier1_core'', ''storage''),
      (''tier1_core'', ''security''), (''tier1_core'', ''virtualization''),
      (''tier2_services'', ''automation''), (''tier2_services'', ''monitoring''),
      (''tier2_services'', ''identity''), (''tier2_services'', ''secrets''),
      (''tier3_applications'', ''business''), (''tier3_applications'', ''media''),
      (''tier3_applications'', ''cloud''),
      (''tier4_specialized'', ''ai''), (''tier4_specialized'', ''gaming''),
      (''tier4_specialized'', ''security_specialized'')]"

definition os_family_groups :: "string list" where
  "os_family_groups = [''linux'', ''windows'', ''macos'', ''network_devices'', ''other'']"

definition create_base_inventory :: inventory where
  "create_base_inventory =
     \<lparr> ungrouped = Map.empty,
       tiers = map_of (map (\<lambda>g. (g, Map.empty)) tier_role_groups),
       os_types = map_of (map (\<lambda>g. (g, Map.empty)) os_family_groups) \<rparr>"

subsection \<open>OS family and role\<close>

text \<open>\<open>any(p.get('port') in ps for p in ports if isinstance(p, dict))\<close>.\<close>

definition any_port :: "int list \<Rightarrow> json list \<Rightarrow> bool" where
  "any_port ps ports =
     list_ex (\<lambda>p. case p of
                JObj d \<Rightarrow> (case dict_get d ''port'' of JInt n \<Rightarrow> n \<in> set ps | _ \<Rightarrow> False)
              | _ \<Rightarrow> False) ports"

text \<open>The first half of \<open>_determine_os_type\<close>: the \<open>operating_system\<close> record.\<close>

definition os_from_assessment :: "pydict \<Rightarrow> py_error + string option" where
  "os_from_assessment device =
     (case map_of device ''operating_system'' of
        Some (JObj os_data) \<Rightarrow>
          (case map_of os_data ''type'' of
             None \<Rightarrow> Inr None
           | Some (JStr t) \<Rightarrow>
               (let os_type = py_lower t in
                if os_type \<in> set [''linux'', ''windows'', ''macos''] then Inr (Some os_type)
                else if str_contains os_type ''network'' then Inr (Some ''network_devices'')
                else Inr None)
           | Some _ \<Rightarrow> Inl AttributeError)
      | _ \<Rightarrow> Inr None)"

text \<open>The second half: the guess from open ports, then the default.\<close>

definition os_from_ports :: "pydict \<Rightarrow> string" where
  "os_from_ports device =
     (case map_of device ''open_ports'' of
        Some (JList ports) \<Rightarrow>
          (if any_port [3389, 5985, 5986] ports then ''windows''
           else if any_port [22] ports then ''linux''
           else ''other'')
      | _ \<Rightarrow> ''other'')"

definition determine_os_type :: "pydict \<Rightarrow> py_error + string" where
  "determine_os_type device =
     (case os_from_assessment device of
        Inl e \<Rightarrow> Inl e
      | Inr (Some os_type) \<Rightarrow> Inr os_type
      | Inr None \<Rightarrow> Inr (os_from_ports device))"

text \<open>\<open>k in v\<close> and \<open>v[k]\<close> for a string \<open>k\<close> and any loaded value \<open>v\<close>.\<close>

fun py_contains_str :: "json \<Rightarrow> string \<Rightarrow> py_error + bool" where
  "py_contains_str (JObj d) k = Inr (map_of d k \<noteq> None)"
| "py_contains_str (JStr s) k = Inr (str_contains s k)"
| "py_contains_str (JList xs) k = Inr (JStr k \<in> set xs)"
| "py_contains_str _ k = Inl TypeError"

fun py_getitem_str :: "json \<Rightarrow> string \<Rightarrow> py_error + json" where
  "py_getitem_str (JObj d) k = (case map_of d k of None \<Rightarrow> Inl KeyError | Some v \<Rightarrow> Inr v)"
| "py_getitem_str _ k = Inl TypeError"

text \<open>
  \<open>'hardware' in device and 'virtualization_support' in device['hardware']\<close> and then
  the truth of \<open>device['hardware']['virtualization_support']\<close>.
\<close>

definition virtualization_flag :: "pydict \<Rightarrow> py_error + bool" where
  "virtualization_flag device =
     (case map_of device ''hardware'' of
        None \<Rightarrow> Inr False
      | Some hw \<Rightarrow>
          (case py_contains_str hw ''virtualization_support'' of
             Inl e \<Rightarrow> Inl e
           | Inr False \<Rightarrow> Inr False
           | Inr True \<Rightarrow>
               (case py_getitem_str hw ''virtualization_support'' of
                  Inl e \<Rightarrow> Inl e
                | Inr v \<Rightarrow> Inr (truthy v))))"

definition role_from_ports :: "pydict \<Rightarrow> string" where
  "role_from_ports device =
     (case map_of device ''open_ports'' of
        Some (JList ports) \<Rightarrow>
          (if any_port [80, 443, 8080] ports then ''cloud''
           else if any_port [3306, 5432, 1521, 27017] ports then ''business''
           else ''ungrouped'')
      | _ \<Rightarrow> ''ungrouped'')"

definition determine_device_role :: "pydict \<Rightarrow> py_error + string" where
  "determine_device_role device =
     (case dict_get_default device ''hostname'' (JStr []) of
        JStr h \<Rightarrow>
          (let hostname = py_lower h in
           if list_ex (str_contains hostname)
                [''router'', ''switch'', ''fw'', ''firewall'', ''gateway''] then Inr ''network''
           else if list_ex (str_contains hostname)
                [''nas'', ''san'', ''storage'', ''backup''] then Inr ''storage''
           else (case virtualization_flag device of
                   Inl e \<Rightarrow> Inl e
                 | Inr True \<Rightarrow> Inr ''virtualization''
                 | Inr False \<Rightarrow> Inr (role_from_ports device)))
      | _ \<Rightarrow> Inl AttributeError)"

subsection \<open>Placement\<close>

definition connection_vars :: "json \<Rightarrow> string \<Rightarrow> host_vars" where
  "connection_vars ip_address os_type =
     (let host_vars = [''ansible_host'' \<mapsto> ip_address] in
      if os_type = ''windows'' then
        host_vars(''ansible_connection'' \<mapsto> JStr ''winrm'',
                  ''ansible_winrm_server_cert_validation'' \<mapsto> JStr ''ignore'')
      else if os_type \<in> set [''linux'', ''macos''] then
        host_vars(''ansible_connection'' \<mapsto> JStr ''ssh'')
      else host_vars)"

definition cpu_vars :: "host_vars \<Rightarrow> pydict \<Rightarrow> py_error + host_vars" where
  "cpu_vars host_vars hardware =
     (case map_of hardware ''cpu'' of
        None \<Rightarrow> Inr host_vars
      | Some cpu \<Rightarrow>
          (case py_get cpu ''cores'' of
             Inl e \<Rightarrow> Inl e
           | Inr cores \<Rightarrow>
               (case py_get cpu ''architecture'' of
                  Inl e \<Rightarrow> Inl e
                | Inr arch \<Rightarrow> Inr (host_vars(''cpu_cores'' \<mapsto> cores, ''cpu_arch'' \<mapsto> arch)))))"

definition memory_vars :: "host_vars \<Rightarrow> pydict \<Rightarrow> py_error + host_vars" where
  "memory_vars host_vars hardware =
     (case map_of hardware ''memory'' of
        None \<Rightarrow> Inr host_vars
      | Some memory \<Rightarrow>
          (case py_get memory ''total_mb'' of
             Inl e \<Rightarrow> Inl e
           | Inr total_mb \<Rightarrow> Inr (host_vars(''memory_mb'' \<mapsto> total_mb))))"

definition virtualization_vars :: "host_vars \<Rightarrow> pydict \<Rightarrow> host_vars" where
  "virtualization_vars host_vars hardware =
     (case map_of hardware ''virtualization_support'' of
        None \<Rightarrow> host_vars
      | Some v \<Rightarrow> host_vars(''virtualization_support'' \<mapsto> v))"

definition hardware_vars :: "host_vars \<Rightarrow> pydict \<Rightarrow> py_error + host_vars" where
  "hardware_vars host_vars device_data =
     (case map_of device_data ''hardware'' of
        Some (JObj hardware) \<Rightarrow>
          (case cpu_vars host_vars hardware of
             Inl e \<Rightarrow> Inl e
           | Inr hv1 \<Rightarrow>
               (case memory_vars hv1 hardware of
                  Inl e \<Rightarrow> Inl e
                | Inr hv2 \<Rightarrow> Inr (virtualization_vars hv2 hardware)))
      | _ \<Rightarrow> Inr host_vars)"

definition tier_of :: "string \<Rightarrow> string option" where
  "tier_of device_role =
     (if device_role \<in> set [''network'', ''storage'', ''security'', ''virtualization'']
      then Some ''tier1_core''
      else if device_role \<in> set [''automation'', ''monitoring'', ''identity'', ''secrets'']
      then Some ''tier2_services''
      else if device_role \<in> set [''business'', ''media'', ''cloud'']
      then Some ''tier3_applications''
      else if device_role \<in> set [''ai'', ''gaming'', ''security_specialized'']
      then Some ''tier4_specialized''
      else None)"

text \<open>
  \<open>_add_host_to_inventory\<close> mutates the tree in place, so the model returns the tree as
  it is when the call ends, with the exception that ended it, if any.
\<close>

definition add_host_to_inventory ::
  "inventory \<Rightarrow> string \<Rightarrow> json \<Rightarrow> string \<Rightarrow> string \<Rightarrow> pydict \<Rightarrow> inventory \<times> py_error option" where
  "add_host_to_inventory tree hostname ip_address os_type device_role device_data =
     (case hardware_vars (connection_vars ip_address os_type) device_data of
        Inl e \<Rightarrow> (tree, Some e)
      | Inr host_vars \<Rightarrow>
          (case os_types tree os_type of
             None \<Rightarrow> (tree, Some KeyError)
           | Some hs \<Rightarrow>
               (let tree1 = tree\<lparr>os_types := (os_types tree)(os_type \<mapsto> hs(hostname \<mapsto> host_vars))\<rparr>
                in if device_role \<noteq> ''ungrouped'' then
                     (case tier_of device_role of
                        None \<Rightarrow> (tree1, None)
                      | Some tier_group \<Rightarrow>
                          (case tiers tree1 (tier_group, device_role) of
                             None \<Rightarrow> (tree1, Some KeyError)
                           | Some rs \<Rightarrow>
                               (tree1\<lparr>tiers := (tiers tree1)
                                   ((tier_group, device_role) \<mapsto> rs(hostname \<mapsto> Map.empty))\<rparr>,
                                None)))
                   else (tree1\<lparr>ungrouped := (ungrouped tree1)(hostname \<mapsto> host_vars)\<rparr>, None))))"

subsection \<open>The generation loop\<close>

text \<open>
  What the \<open>try\<close> block of \<open>generate_inventory\<close> computes for one device record before
  it touches the tree: nothing when the address is falsy (\<open>continue\<close>), otherwise the
  host key, the OS family and the role, or the exception one of the three helpers raised.
\<close>

definition classify :: "pydict \<Rightarrow> py_error + (string \<times> json \<times> string \<times> string) option" where
  "classify device =
     (let ip_address = dict_get device ''ip_address'';
          hostname = dict_get_default device ''hostname'' (JStr ''unknown'')
      in if \<not> truthy ip_address then Inr None
         else (case safe_hostname hostname ip_address of
                 Inl e \<Rightarrow> Inl e
               | Inr safe_name \<Rightarrow>
                   (case determine_os_type device of
                      Inl e \<Rightarrow> Inl e
                    | Inr os_type \<Rightarrow>
                        (case determine_device_role device of
                           Inl e \<Rightarrow> Inl e
                         | Inr device_role \<Rightarrow>
                             Inr (Some (safe_name, ip_address, os_type, device_role))))))"

text \<open>
  One iteration of the loop. An exception inside the \<open>try\<close> is caught and the loop goes
  on with the tree as it is; the handler itself calls \<open>device.get\<close>, so for an element
  that is not an object the handler raises again and the exception leaves the loop.
\<close>

fun process_device :: "inventory \<Rightarrow> json \<Rightarrow> py_error + inventory" where
  "process_device tree (JObj device) =
     (case classify device of
        Inl e \<Rightarrow> Inr tree
      | Inr None \<Rightarrow> Inr tree
      | Inr (Some (safe_name, ip_address, os_type, device_role)) \<Rightarrow>
          Inr (fst (add_host_to_inventory tree safe_name ip_address os_type device_role device)))"
| "process_device tree _ = Inl AttributeError"

fun process_devices :: "inventory \<Rightarrow> json list \<Rightarrow> py_error + inventory" where
  "process_devices tree [] = Inr tree"
| "process_devices tree (device # rest) =
     (case process_device tree device of
        Inl e \<Rightarrow> Inl e
      | Inr tree' \<Rightarrow> process_devices tree' rest)"

text \<open>
  \<open>for device in self.discovered_devices\<close>: a list yields its elements, an object its
  keys, a string its characters. (A loaded value of another type never reaches the loop:
  \<open>load_discovered_devices\<close> fails on its \<open>len\<close>.)
\<close>

fun iterate :: "json \<Rightarrow> py_error + json list" where
  "iterate (JList xs) = Inr xs"
| "iterate (JObj d) = Inr (map (\<lambda>(k, v). JStr k) d)"
| "iterate (JStr s) = Inr (map (\<lambda>c. JStr [c]) s)"
| "iterate _ = Inl TypeError"

text \<open>
  \<open>generate_inventory\<close> on a fresh generator: \<open>False\<close> when nothing is loaded, otherwise
  \<open>True\<close> with the tree built from the base tree, or the exception that left the loop.
\<close>

definition generate_inventory :: "json \<Rightarrow> py_error + bool \<times> inventory" where
  "generate_inventory discovered_devices =
     (if \<not> truthy discovered_devices then Inr (False, create_base_inventory)
      else (case iterate discovered_devices of
              Inl e \<Rightarrow> Inl e
            | Inr devices \<Rightarrow>
                (case process_devices create_base_inventory devices of
                   Inl e \<Rightarrow> Inl e
                 | Inr tree \<Rightarrow> Inr (True, tree))))"

subsection \<open>Reading the tree\<close>

text \<open>
  The entry of a host key in a group, the placement the loop computes for a device
  record (its key, OS family and role, when no step raises), and the keys of a tree.
\<close>

definition os_entry :: "inventory \<Rightarrow> string \<Rightarrow> string \<Rightarrow> host_vars option" where
  "os_entry tree g k = (case os_types tree g of None \<Rightarrow> None | Some hs \<Rightarrow> hs k)"

definition role_entry :: "inventory \<Rightarrow> string \<times> string \<Rightarrow> string \<Rightarrow> host_vars option" where
  "role_entry tree tr k = (case tiers tree tr of None \<Rightarrow> None | Some hs \<Rightarrow> hs k)"

definition placed :: "json \<Rightarrow> (string \<times> string \<times> string) option" where
  "placed d =
     (case d of
        JObj device \<Rightarrow>
          (case classify device of
             Inr (Some (k, ip_address, g, r)) \<Rightarrow>
               (case hardware_vars (connection_vars ip_address g) device of
                  Inr hv \<Rightarrow> Some (k, g, r)
                | Inl e \<Rightarrow> None)
           | _ \<Rightarrow> None)
      | _ \<Rightarrow> None)"

definition well_shaped :: "inventory \<Rightarrow> bool" where
  "well_shaped tree =
     (list_all (\<lambda>g. os_types tree g \<noteq> None) os_family_groups \<and>
      list_all (\<lambda>tr. tiers tree tr \<noteq> None) tier_role_groups)"

definition in_os :: "inventory \<Rightarrow> string \<Rightarrow> string \<Rightarrow> bool" where
  "in_os tree g k = (os_entry tree g k \<noteq> None)"

definition in_role :: "inventory \<Rightarrow> string \<times> string \<Rightarrow> string \<Rightarrow> bool" where
  "in_role tree tr k = (role_entry tree tr k \<noteq> None)"

definition in_ungrouped :: "inventory \<Rightarrow> string \<Rightarrow> bool" where
  "in_ungrouped tree k = (ungrouped tree k \<noteq> None)"

definition device_roles :: "string list" where
  "device_roles = [''network'', ''storage'', ''virtualization'', ''cloud'', ''business'', ''ungrouped'']"


fun is_object :: "json \<Rightarrow> bool" where
  "is_object (JObj d) = True"
| "is_object _ = False"


text \<open>The host variables that come from the hardware profile.\<close>

definition hardware_keys :: "string list" where
  "hardware_keys = [''cpu_cores'', ''cpu_arch'', ''memory_mb'', ''virtualization_support'']"

section \<open>Assessment engine (hardware_analyzer.py)\<close>

subsection \<open>Dict updates\<close>

text \<open>\<open>d[k] = v\<close>: the value of an existing key is replaced, a new key goes last.\<close>

fun dict_set :: "pydict \<Rightarrow> string \<Rightarrow> json \<Rightarrow> pydict" where
  "dict_set [] k v = [(k, v)]"
| "dict_set ((k', v') # d) k v = (if k' = k then (k, v) # d else (k', v') # dict_set d k v)"

text \<open>\<open>{**d1, **d2}\<close>.\<close>

definition dict_merge :: "pydict \<Rightarrow> pydict \<Rightarrow> pydict" where
  "dict_merge d1 d2 = foldl (\<lambda>d (k, v). dict_set d k v) d1 d2"

subsection \<open>The network and the hosts, as the engine sees them\<close>

text \<open>
  What the remote shell returned, already parsed by \<open>_assess_via_ssh\<close>, and what the
  management interface returned, already compiled by \<open>_assess_via_winrm\<close>. The
  parsing of the command output is not part of the model.
\<close>

record ssh_facts =
  ssh_os_name :: json
  ssh_os_version :: json
  ssh_cpu_cores :: json
  ssh_cpu_arch :: json
  ssh_total_memory :: json
  ssh_disks :: "json list"
  ssh_virt_support :: bool
  ssh_docker :: bool

record wmi_facts =
  wmi_os_name :: json
  wmi_os_version :: json
  wmi_cpu_details :: pydict
  wmi_total_mb :: json
  wmi_disks :: "json list"
  wmi_virt_support :: bool
  wmi_docker :: bool

text \<open>
  A remote-shell session: the client could not be set up or closed (the exception
  leaves \<open>_assess_via_ssh\<close>), the connection or a command failed inside the \<open>try\<close>
  (the method returns \<open>None\<close>), or the facts were read.
\<close>

datatype ssh_result = SshRaises | SshFails | SshFacts ssh_facts

datatype ping_result = PingRaises | PingExit int

text \<open>
  The surroundings of one run. \<open>port_open\<close> is \<open>_check_port_open\<close>, which catches
  every exception itself; the answers do not change during the run.
\<close>

record assess_env =
  paramiko_available :: bool
  wmi_available :: bool
  port_open :: "json \<Rightarrow> int \<Rightarrow> bool"
  ssh_session :: "json \<Rightarrow> ssh_result"
  wmi_session :: "json \<Rightarrow> wmi_facts option"
  ping :: "json \<Rightarrow> ping_result"
  clock :: string

definition SSH_PORT :: int where "SSH_PORT = 22"
definition WINRM_PORT :: int where "WINRM_PORT = 5985"

subsection \<open>The three methods\<close>

definition assess_via_ssh :: "assess_env \<Rightarrow> json \<Rightarrow> py_error + pydict option" where
  "assess_via_ssh env ip_address =
     (if \<not> paramiko_available env then Inr None
      else (case ssh_session env ip_address of
              SshRaises \<Rightarrow> Inl OtherError
            | SshFails \<Rightarrow> Inr None
            | SshFacts f \<Rightarrow>
                Inr (Some
                  [(''assessment_method'', JStr ''ssh''),
                   (''operating_system'',
                      JObj [(''name'', ssh_os_name f), (''version'', ssh_os_version f),
                            (''type'', JStr ''linux'')]),
                   (''hardware'',
                      JObj [(''cpu'', JObj [(''cores'', ssh_cpu_cores f),
                                            (''architecture'', ssh_cpu_arch f)]),
                            (''memory'', JObj [(''total_mb'', ssh_total_memory f)]),
                            (''storage'', JList (ssh_disks f)),
                            (''virtualization_support'', JBool (ssh_virt_support f))]),
                   (''software'', JObj [(''docker_installed'', JBool (ssh_docker f))])])))"

definition assess_via_winrm :: "assess_env \<Rightarrow> json \<Rightarrow> pydict option" where
  "assess_via_winrm env ip_address =
     (if \<not> wmi_available env then None
      else (case wmi_session env ip_address of
              None \<Rightarrow> None
            | Some f \<Rightarrow>
                Some
                  [(''assessment_method'', JStr ''winrm''),
                   (''operating_system'',
                      JObj [(''name'', wmi_os_name f), (''version'', wmi_os_version f),
                            (''type'', JStr ''windows'')]),
                   (''hardware'',
                      JObj [(''cpu'', JObj (wmi_cpu_details f)),
                            (''memory'', JObj [(''total_mb'', wmi_total_mb f)]),
                            (''storage'', JList (wmi_disks f)),
                            (''virtualization_support'', JBool (wmi_virt_support f))]),
                   (''software'', JObj [(''docker_installed'', JBool (wmi_docker f))])]))"

definition common_ports :: "int list" where
  "common_ports = [22, 23, 80, 443, 445, 3389, 5985]"

definition guess_os_type :: "int list \<Rightarrow> string" where
  "guess_os_type open_ports =
     (if 3389 \<in> set open_ports \<or> 5985 \<in> set open_ports then ''windows''
      else if 22 \<in> set open_ports \<and> 445 \<notin> set open_ports then ''linux''
      else ''unknown'')"

definition assess_via_basic_scan :: "assess_env \<Rightarrow> json \<Rightarrow> pydict option" where
  "assess_via_basic_scan env ip_address =
     (case ping env ip_address of
        PingRaises \<Rightarrow> None
      | PingExit returncode \<Rightarrow>
          (let is_alive = (returncode = 0) in
           if \<not> is_alive then None
           else (let open_ports = filter (port_open env ip_address) common_ports;
                     os_type = guess_os_type open_ports
                 in Some [(''assessment_method'', JStr ''basic_scan''),
                          (''operating_system'', JObj [(''type'', JStr os_type)]),
                          (''network'', JObj [(''open_ports'', JList (map JInt open_ports))])])))"

subsection \<open>The fallback chain\<close>

text \<open>\<open>not assessment\<close>: \<open>None\<close> and the empty dict are falsy.\<close>

definition no_assessment :: "pydict option \<Rightarrow> bool" where
  "no_assessment a = (case a of None \<Rightarrow> True | Some d \<Rightarrow> d = [])"

definition assess_device :: "assess_env \<Rightarrow> json \<Rightarrow> py_error + pydict option" where
  "assess_device env ip_address =
     (case (if paramiko_available env \<and> port_open env ip_address SSH_PORT
            then assess_via_ssh env ip_address else Inr None) of
        Inl e \<Rightarrow> Inl e
      | Inr a1 \<Rightarrow>
          (let a2 = (if no_assessment a1 \<and> wmi_available env \<and> port_open env ip_address WINRM_PORT
                     then assess_via_winrm env ip_address else a1);
               a3 = (if no_assessment a2 then assess_via_basic_scan env ip_address else a2)
           in if no_assessment a3 then Inr a3
              else Inr (map_option (\<lambda>a. dict_set a ''assessment_timestamp'' (JStr (clock env))) a3)))"

subsection \<open>The batch\<close>

text \<open>
  One iteration of \<open>assess_all_devices\<close>, with the list of assessed devices so far. As
  in the inventory loop, the handler calls \<open>device.get\<close>: an element that is not an
  object makes the handler raise, and that exception leaves the loop.
\<close>

fun assess_one :: "assess_env \<Rightarrow> pydict list \<Rightarrow> json \<Rightarrow> py_error + pydict list" where
  "assess_one env assessed (JObj device) =
     (let ip_address = dict_get device ''ip_address'' in
      if \<not> truthy ip_address then Inr assessed
      else (case assess_device env ip_address of
              Inl e \<Rightarrow> Inr assessed
            | Inr None \<Rightarrow> Inr assessed
            | Inr (Some assessment) \<Rightarrow>
                (if assessment = [] then Inr assessed
                 else Inr (assessed @ [dict_merge device assessment]))))"
| "assess_one env assessed _ = Inl AttributeError"

fun assess_loop :: "assess_env \<Rightarrow> pydict list \<Rightarrow> json list \<Rightarrow> py_error + pydict list" where
  "assess_loop env assessed [] = Inr assessed"
| "assess_loop env assessed (device # rest) =
     (case assess_one env assessed device of
        Inl e \<Rightarrow> Inl e
      | Inr assessed' \<Rightarrow> assess_loop env assessed' rest)"

text \<open>\<open>assess_all_devices\<close> on a fresh engine whose \<open>devices\<close> is the loaded value.\<close>

definition assess_all_devices :: "assess_env \<Rightarrow> json \<Rightarrow> py_error + pydict list" where
  "assess_all_devices env devices =
     (case iterate devices of
        Inl e \<Rightarrow> Inl e
      | Inr ds \<Rightarrow> assess_loop env [] ds)"


section \<open>Entry points\<close>

subsection \<open>Files\<close>

text \<open>
  A file of the known directory: its name, its modification time and what \<open>open\<close> and
  \<open>json.load\<close> give for it (an exception, or the loaded value).
\<close>

datatype file_content = Unreadable | Content json

type_synonym dir_entry = "string \<times> nat \<times> file_content"

text \<open>\<open>glob("<pre>*<suf>")\<close> on the names of a directory.\<close>

definition glob_match :: "string \<Rightarrow> string \<Rightarrow> string \<Rightarrow> bool" where
  "glob_match pre suf name =
     (prefix pre name \<and> suffix suf name \<and> length pre + length suf \<le> length name)"

definition glob_files :: "string \<Rightarrow> string \<Rightarrow> dir_entry list \<Rightarrow> dir_entry list" where
  "glob_files pre suf files = filter (\<lambda>f. glob_match pre suf (fst f)) files"

text \<open>\<open>max(files, key=lambda f: f.stat().st_mtime)\<close>: the first of the newest files.\<close>

fun latest_file :: "dir_entry \<Rightarrow> dir_entry list \<Rightarrow> dir_entry" where
  "latest_file best [] = best"
| "latest_file best (f # fs) =
     latest_file (if fst (snd best) < fst (snd f) then f else best) fs"

fun py_len :: "json \<Rightarrow> py_error + nat" where
  "py_len (JList xs) = Inr (length xs)"
| "py_len (JObj d) = Inr (length d)"
| "py_len (JStr s) = Inr (length s)"
| "py_len _ = Inl TypeError"

text \<open>
  How a run ended: the exit status of the process (an uncaught exception ends it with
  status 1 after the traceback), the messages of the entry point in order (the messages
  about single devices are left out), and the artifact written, if any.
\<close>

record 'a run_result =
  exit_status :: int
  messages :: "string list"
  artifact :: "'a option"

subsection \<open>Assessment entry point\<close>

text \<open>
  The \<open>--inventory-file\<close> argument: not given, or a path with what is at that path
  (\<open>None\<close> when nothing exists there). The output directory exists once the engine is
  constructed (\<open>mkdir(parents=True, exist_ok=True)\<close>).
\<close>

type_synonym inventory_arg = "(string \<times> file_content option) option"

text \<open>\<open>if inventory_file\<close>: an argument that is missing or the empty path is falsy.\<close>

definition given_path :: "inventory_arg \<Rightarrow> bool" where
  "given_path inventory_file =
     (case inventory_file of None \<Rightarrow> False | Some (path, at_path) \<Rightarrow> path \<noteq> [])"

definition find_inventory_file ::
  "inventory_arg \<Rightarrow> dir_entry list \<Rightarrow> string list \<times> (string \<times> file_content option) option" where
  "find_inventory_file inventory_file output_dir =
     (if given_path inventory_file then ([], inventory_file)
      else (case glob_files ''network_discovery_'' ''.json'' output_dir of
              [] \<Rightarrow> ([], None)
            | f # fs \<Rightarrow>
                (let latest = latest_file f fs
                 in ([''Using latest inventory file''], Some (fst latest, Some (snd (snd latest)))))))"

definition load_inventory :: "(string \<times> file_content option) option \<Rightarrow> string list \<times> json" where
  "load_inventory inventory_file =
     (case inventory_file of
        None \<Rightarrow> ([''Inventory file not found''], JList [])
      | Some (path, None) \<Rightarrow> ([''Inventory file not found''], JList [])
      | Some (path, Some Unreadable) \<Rightarrow> ([''Error loading inventory file''], JList [])
      | Some (path, Some (Content devices)) \<Rightarrow>
          (case py_len devices of
             Inl e \<Rightarrow> ([''Error loading inventory file''], JList [])
           | Inr n \<Rightarrow> ([''Loaded devices from inventory''], devices)))"

text \<open>
  \<open>main\<close> of hardware_analyzer.py. \<open>save_ok\<close> says whether \<open>save_results\<close> can
  write its file; it has no handler, so a failure there is an uncaught exception.
\<close>

definition assessment_main ::
  "inventory_arg \<Rightarrow> dir_entry list \<Rightarrow> assess_env \<Rightarrow> bool \<Rightarrow> (pydict list) run_result" where
  "assessment_main inventory_file output_dir env save_ok =
     (let (msgs1, found) = find_inventory_file inventory_file output_dir;
          (msgs2, devices) = load_inventory found;
          msgs = msgs1 @ msgs2
      in case assess_all_devices env devices of
           Inl e \<Rightarrow> \<lparr>exit_status = 1, messages = msgs @ [''Traceback''], artifact = None\<rparr>
         | Inr assessed_devices \<Rightarrow>
             (if assessed_devices \<noteq> [] then
                (if save_ok
                 then \<lparr>exit_status = 0, messages = msgs @ [''Assessment results saved''],
                        artifact = Some assessed_devices\<rparr>
                 else \<lparr>exit_status = 1, messages = msgs @ [''Traceback''], artifact = None\<rparr>)
              else \<lparr>exit_status = 0,
                     messages = msgs @ [''No devices were successfully assessed''],
                     artifact = None\<rparr>))"

subsection \<open>Inventory-generation entry point\<close>

text \<open>What \<open>load_discovered_devices\<close> does with the newest file of one kind.\<close>

definition load_latest :: "string \<Rightarrow> dir_entry \<Rightarrow> dir_entry list \<Rightarrow> bool \<times> json \<times> string list" where
  "load_latest kind f fs =
     (case snd (snd (latest_file f fs)) of
        Unreadable \<Rightarrow> (False, JList [], [''Using latest '' @ kind @ '' file'', ''Error loading '' @ kind @ '' file''])
      | Content devices \<Rightarrow>
          (case py_len devices of
             Inl e \<Rightarrow> (False, devices, [''Using latest '' @ kind @ '' file'', ''Error loading '' @ kind @ '' file''])
           | Inr n \<Rightarrow> (0 < n, devices, [''Using latest '' @ kind @ '' file'', ''Loaded devices from '' @ kind])))"

text \<open>
  \<open>load_discovered_devices\<close>: the flag it returns, \<open>self.discovered_devices\<close>
  afterwards, and its messages. The input directory is \<open>None\<close> when it does not exist.
\<close>

definition load_discovered_devices :: "dir_entry list option \<Rightarrow> bool \<times> json \<times> string list" where
  "load_discovered_devices input_dir =
     (case input_dir of
        None \<Rightarrow> (False, JList [], [''Input directory not found''])
      | Some files \<Rightarrow>
          (case glob_files ''hardware_assessment_'' ''.json'' files of
             [] \<Rightarrow>
               (case glob_files ''network_discovery_'' ''.json'' files of
                  [] \<Rightarrow> (False, JList [],
                         [''No hardware assessment files found'',
                          ''No network discovery files found either''])
                | f # fs \<Rightarrow>
                    (let (ok, devices, msgs) = load_latest ''network discovery'' f fs
                     in (ok, devices, ''No hardware assessment files found'' # msgs)))
           | f # fs \<Rightarrow> load_latest ''hardware assessment'' f fs))"

text \<open>
  \<open>main\<close> of generate_inventory.py. \<open>save_ok\<close> says whether \<open>save_inventory\<close> can
  write its file; it catches the failure and returns \<open>False\<close>.
\<close>

definition inventory_main :: "dir_entry list option \<Rightarrow> bool \<Rightarrow> inventory run_result" where
  "inventory_main input_dir save_ok =
     (let (ok, discovered_devices, msgs) = load_discovered_devices input_dir
      in if \<not> ok
         then \<lparr>exit_status = 1, messages = msgs @ [''Failed to load discovered devices''],
                artifact = None\<rparr>
         else (case generate_inventory discovered_devices of
                 Inl e \<Rightarrow> \<lparr>exit_status = 1, messages = msgs @ [''Traceback''], artifact = None\<rparr>
               | Inr (False, tree) \<Rightarrow>
                   \<lparr>exit_status = 1, messages = msgs @ [''Failed to generate inventory''],
                     artifact = None\<rparr>
               | Inr (True, tree) \<Rightarrow>
                   (if \<not> save_ok
                    then \<lparr>exit_status = 1, messages = msgs @ [''Failed to save inventory''],
                           artifact = None\<rparr>
                    else \<lparr>exit_status = 0,
                           messages = msgs @ [''Inventory saved'',
                                              ''Inventory generation completed successfully''],
                           artifact = Some tree\<rparr>)))"

section \<open>Discovery engine (network_discovery.py)\<close>

subsection \<open>IPv4 networks\<close>

text \<open>
  An IPv4 address is its 32-bit value. \<open>IPv4Network(subnet)\<close> in its default strict
  mode accepts an address and a prefix length when no host bit is set; the text of the
  argument is taken as already read into the two numbers.
\<close>

record ipv4_network =
  network_address :: nat
  prefixlen :: nat

definition broadcast_address :: "ipv4_network \<Rightarrow> nat" where
  "broadcast_address net = network_address net + 2 ^ (32 - prefixlen net) - 1"

definition IPv4Network :: "nat \<times> nat \<Rightarrow> py_error + ipv4_network" where
  "IPv4Network subnet =
     (case subnet of (address, prefix_length) \<Rightarrow>
        if 2 ^ 32 \<le> address \<or> 32 < prefix_length then Inl ValueError
        else if address mod 2 ^ (32 - prefix_length) \<noteq> 0 then Inl ValueError
        else Inr \<lparr>network_address = address, prefixlen = prefix_length\<rparr>)"

text \<open>
  \<open>network.hosts()\<close> of the standard library: the addresses strictly between the
  network and the broadcast address; both addresses of a /31; the one address of a /32.
\<close>

definition hosts :: "ipv4_network \<Rightarrow> nat list" where
  "hosts net =
     (if prefixlen net = 31 then [network_address net, network_address net + 1]
      else if prefixlen net = 32 then [network_address net]
      else [network_address net + 1 ..< broadcast_address net])"

text \<open>\<open>str(n)\<close> for a number and \<open>str(ip)\<close> for an address: the dotted quad.\<close>

fun string_of_nat :: "nat \<Rightarrow> string" where
  "string_of_nat n =
     (if n < 10 then [char_of (48 + n)]
      else string_of_nat (n div 10) @ [char_of (48 + n mod 10)])"

declare string_of_nat.simps [simp del]

definition ip_str :: "nat \<Rightarrow> string" where
  "ip_str ip =
     string_of_nat (ip div 16777216 mod 256) @ ''.'' @ string_of_nat (ip div 65536 mod 256) @ ''.'' @
     string_of_nat (ip div 256 mod 256) @ ''.'' @ string_of_nat (ip mod 256)"

subsection \<open>The network, as the discovery methods see it\<close>

datatype probe_result = ProbeRaises | Answers "string list"

datatype lookup_result = Resolved string | HostError | LookupRaises

text \<open>One host of an Nmap result, after \<open>_get_os_details\<close> and \<open>_get_open_ports\<close>.\<close>

record nmap_host =
  nmap_address :: string
  nmap_hostname :: string
  nmap_mac :: "string option"
  nmap_os :: json
  nmap_ports :: "json list"

datatype nmap_result = NmapRaises | NmapHosts "nmap_host list"

text \<open>
  A lease table: not available (no file, a failing command, a parse error), or the
  leases read from it, each with address, hardware address and hostname if any.
\<close>

datatype lease_result = NoLeases | Leases "(string \<times> string \<times> string option) list"

text \<open>
  The surroundings of one discovery run: \<open>srp\<close> is the answer to the link-layer request
  for one address (the hardware addresses of the responders, or an exception), and
  \<open>gethostbyaddr\<close> the reverse lookup (a name, \<open>socket.herror\<close>, or another exception).
\<close>

record discovery_env =
  nmap_available :: bool
  scapy_available :: bool
  nmap_scan :: nmap_result
  srp :: "nat \<Rightarrow> probe_result"
  gethostbyaddr :: "nat \<Rightarrow> lookup_result"
  dhcp_table :: lease_result
  timestamp :: string

subsection \<open>Scan method\<close>

definition nmap_device :: "discovery_env \<Rightarrow> nmap_host \<Rightarrow> pydict" where
  "nmap_device env h =
     [(''ip_address'', JStr (nmap_address h)),
      (''hostname'', JStr (if nmap_hostname h \<noteq> [] then nmap_hostname h else ''Unknown'')),
      (''mac_address'', JStr (case nmap_mac h of None \<Rightarrow> ''Unknown'' | Some m \<Rightarrow> m)),
      (''os'', nmap_os h),
      (''open_ports'', JList (nmap_ports h)),
      (''discovery_method'', JStr ''nmap''),
      (''timestamp'', JStr (timestamp env))]"

text \<open>
  Each method returns a list and leaves \<open>self.discovered_devices\<close> changed: the model
  returns both, the returned list first.
\<close>

definition scan_with_nmap :: "discovery_env \<Rightarrow> pydict list \<Rightarrow> pydict list \<times> pydict list" where
  "scan_with_nmap env discovered =
     (if \<not> nmap_available env then ([], discovered)
      else (case nmap_scan env of
              NmapRaises \<Rightarrow> ([], discovered)
            | NmapHosts hs \<Rightarrow>
                (let discovered' = discovered @ map (nmap_device env) hs
                 in (discovered', discovered'))))"

subsection \<open>Link-layer method\<close>

definition arp_device :: "discovery_env \<Rightarrow> string \<Rightarrow> string \<Rightarrow> string \<Rightarrow> pydict" where
  "arp_device env ip_string hostname mac_address =
     [(''ip_address'', JStr ip_string),
      (''hostname'', JStr hostname),
      (''mac_address'', JStr mac_address),
      (''discovery_method'', JStr ''arp''),
      (''timestamp'', JStr (timestamp env))]"

text \<open>
  The inner loop over the answers to one request. The lookup is repeated for every
  answer; only \<open>socket.herror\<close> is caught there. The result is the exception that left
  the loop, if any, and the list of discovered devices at that moment.
\<close>

fun arp_answers ::
  "discovery_env \<Rightarrow> nat \<Rightarrow> pydict list \<Rightarrow> string list \<Rightarrow> py_error option \<times> pydict list" where
  "arp_answers env ip discovered [] = (None, discovered)"
| "arp_answers env ip discovered (mac_address # rest) =
     (case gethostbyaddr env ip of
        LookupRaises \<Rightarrow> (Some OtherError, discovered)
      | HostError \<Rightarrow>
          arp_answers env ip (discovered @ [arp_device env (ip_str ip) ''Unknown'' mac_address]) rest
      | Resolved hostname \<Rightarrow>
          arp_answers env ip (discovered @ [arp_device env (ip_str ip) hostname mac_address]) rest)"

text \<open>The outer loop over \<open>network.hosts()\<close>.\<close>

fun arp_hosts ::
  "discovery_env \<Rightarrow> ipv4_network \<Rightarrow> pydict list \<Rightarrow> nat list \<Rightarrow> py_error option \<times> pydict list" where
  "arp_hosts env net discovered [] = (None, discovered)"
| "arp_hosts env net discovered (ip # rest) =
     (if ip = network_address net \<or> ip = broadcast_address net
      then arp_hosts env net discovered rest
      else (case srp env ip of
              ProbeRaises \<Rightarrow> (Some OtherError, discovered)
            | Answers result \<Rightarrow>
                (case arp_answers env ip discovered result of
                   (Some e, discovered') \<Rightarrow> (Some e, discovered')
                 | (None, discovered') \<Rightarrow> arp_hosts env net discovered' rest)))"

definition scan_with_arp ::
  "discovery_env \<Rightarrow> nat \<times> nat \<Rightarrow> pydict list \<Rightarrow> pydict list \<times> pydict list" where
  "scan_with_arp env subnet discovered =
     (if \<not> scapy_available env then ([], discovered)
      else (case IPv4Network subnet of
              Inl e \<Rightarrow> ([], discovered)
            | Inr net \<Rightarrow>
                (case arp_hosts env net discovered (hosts net) of
                   (Some e, discovered') \<Rightarrow> ([], discovered')
                 | (None, discovered') \<Rightarrow> (discovered', discovered'))))"

subsection \<open>Lease-table method\<close>

definition dhcp_device :: "discovery_env \<Rightarrow> string \<times> string \<times> string option \<Rightarrow> pydict" where
  "dhcp_device env lease =
     (case lease of (ip, mac, hostname) \<Rightarrow>
        [(''ip_address'', JStr ip),
         (''mac_address'', JStr mac),
         (''hostname'', JStr (case hostname of None \<Rightarrow> ''Unknown'' | Some h \<Rightarrow> if h \<noteq> [] then h else ''Unknown'')),
         (''discovery_method'', JStr ''dhcp''),
         (''timestamp'', JStr (timestamp env))])"

definition get_dhcp_leases :: "discovery_env \<Rightarrow> pydict list \<Rightarrow> pydict list \<times> pydict list" where
  "get_dhcp_leases env discovered =
     (case dhcp_table env of
        NoLeases \<Rightarrow> ([], discovered)
      | Leases ls \<Rightarrow>
          (let devices = map (dhcp_device env) ls
           in (devices, discovered @ devices)))"

subsection \<open>The run\<close>

record discovery_args =
  arg_subnet :: "nat \<times> nat"
  arg_nmap :: bool
  arg_arp :: bool
  arg_dhcp :: bool
  arg_all :: bool

text \<open>
  \<open>main\<close> of network_discovery.py, up to the list that \<open>save_results\<close> writes: the
  selected methods run in the order scan, link layer, lease table on one engine.
\<close>

definition discover :: "discovery_args \<Rightarrow> discovery_env \<Rightarrow> pydict list" where
  "discover args env =
     (let run_nmap = (arg_nmap args \<or> arg_all args);
          run_arp = (arg_arp args \<or> arg_all args);
          run_dhcp = (arg_dhcp args \<or> arg_all args);
          d1 = (if run_nmap then snd (scan_with_nmap env []) else []);
          d2 = (if run_arp then snd (scan_with_arp env (arg_subnet args) d1) else d1);
          d3 = (if run_dhcp then snd (get_dhcp_leases env d2) else d2)
      in d3)"

subsection \<open>Reading the records\<close>

text \<open>
  The number a decimal text stands for, and what makes a record one that the link-layer
  method wrote for a given address.
\<close>

definition digit_value :: "string \<Rightarrow> nat" where
  "digit_value s = foldl (\<lambda>a c. 10 * a + (of_char c - 48)) 0 s"

definition arp_record_of :: "nat \<Rightarrow> pydict \<Rightarrow> bool" where
  "arp_record_of ip d =
     (map_of d ''ip_address'' = Some (JStr (ip_str ip)) \<and>
      map_of d ''discovery_method'' = Some (JStr ''arp''))"

definition has_address :: "string \<Rightarrow> pydict \<Rightarrow> bool" where
  "has_address a d = (map_of d ''ip_address'' = Some (JStr a))"

section \<open>Example inputs\<close>

text \<open>
  Device records, surroundings and directories on which the properties below are
  evaluated.
\<close>

definition web_device :: pydict where
  "web_device = [(''ip_address'', JStr ''10.0.0.5''), (''hostname'', JStr ''web01.example.com''),
                 (''open_ports'', JList [JObj [(''port'', JInt 80)]])]"



definition windows_device :: pydict where
  "windows_device = [(''ip_address'', JStr ''10.0.0.7''), (''hostname'', JStr ''db01''),
                     (''open_ports'', JList [JObj [(''port'', JInt 3389)], JObj [(''port'', JInt 5432)]])]"

definition null_hostname_device :: pydict where
  "null_hostname_device = [(''ip_address'', JStr ''10.0.0.9''), (''hostname'', JNull)]"

definition ping_only_env :: assess_env where
  "ping_only_env =
     \<lparr> paramiko_available = True, wmi_available = False,
       port_open = (\<lambda>ip p. p = 22),
       ssh_session = (\<lambda>ip. SshFails),
       wmi_session = (\<lambda>ip. None),
       ping = (\<lambda>ip. PingExit 0),
       clock = ''2024-05-01T10:00:00'' \<rparr>"

definition example_facts :: ssh_facts where
  "example_facts =
     \<lparr> ssh_os_name = JStr ''Debian GNU/Linux 12'', ssh_os_version = JStr ''12'',
       ssh_cpu_cores = JStr ''4'', ssh_cpu_arch = JStr ''x86_64'',
       ssh_total_memory = JStr ''7950'', ssh_disks = [],
       ssh_virt_support = False, ssh_docker = False \<rparr>"

definition shell_only_env :: assess_env where
  "shell_only_env =
     \<lparr> paramiko_available = True, wmi_available = False,
       port_open = (\<lambda>ip p. p = 22),
       ssh_session = (\<lambda>ip. SshFacts example_facts),
       wmi_session = (\<lambda>ip. None),
       ping = (\<lambda>ip. PingExit 1),
       clock = ''2024-05-01T10:00:00'' \<rparr>"

definition example_wmi_facts :: wmi_facts where
  "example_wmi_facts =
     \<lparr> wmi_os_name = JStr ''Microsoft Windows Server 2022'', wmi_os_version = JStr ''10.0.20348'',
       wmi_cpu_details = [(''cores'', JInt 4), (''logical_processors'', JInt 8),
                          (''architecture'', JInt 64), (''model'', JStr ''Xeon'')],
       wmi_total_mb = JInt 16384, wmi_disks = [],
       wmi_virt_support = True, wmi_docker = False \<rparr>"

definition management_only_env :: assess_env where
  "management_only_env =
     \<lparr> paramiko_available = True, wmi_available = True,
       port_open = (\<lambda>ip p. p = 5985),
       ssh_session = (\<lambda>ip. SshFails),
       wmi_session = (\<lambda>ip. Some example_wmi_facts),
       ping = (\<lambda>ip. PingExit 1),
       clock = ''2024-05-01T10:00:00'' \<rparr>"

definition broken_client_env :: assess_env where
  "broken_client_env =
     \<lparr> paramiko_available = True, wmi_available = False,
       port_open = (\<lambda>ip p. p = 22),
       ssh_session = (\<lambda>ip. SshRaises),
       wmi_session = (\<lambda>ip. None),
       ping = (\<lambda>ip. PingExit 0),
       clock = ''2024-05-01T10:00:00'' \<rparr>"

definition plain_device :: pydict where
  "plain_device = [(''ip_address'', JStr ''10.0.0.8''), (''hostname'', JStr ''Unknown'')]"

definition silent_env :: assess_env where
  "silent_env =
     \<lparr> paramiko_available = True, wmi_available = False,
       port_open = (\<lambda>ip p. False),
       ssh_session = (\<lambda>ip. SshFails),
       wmi_session = (\<lambda>ip. None),
       ping = (\<lambda>ip. PingExit 1),
       clock = ''2024-05-01T10:00:00'' \<rparr>"

definition unrelated_files :: "dir_entry list" where
  "unrelated_files = [(''notes.txt'', 1700000000, Unreadable),
                      (''generated_inventory_20240501_100000.yml'', 1700000500, Unreadable)]"

definition small_subnet :: "nat \<times> nat" where
  "small_subnet = (167772160, 30)"

definition printer_host :: nmap_host where
  "printer_host = \<lparr>nmap_address = ''10.0.0.2'', nmap_hostname = ''printer'',
                    nmap_mac = Some ''aa:bb:cc:dd:ee:02'',
                    nmap_os = JObj [(''name'', JStr ''Unknown''), (''accuracy'', JStr ''0''),
                                    (''matches'', JList [])],
                    nmap_ports = []\<rparr>"

definition answering_env :: discovery_env where
  "answering_env =
     \<lparr> nmap_available = True, scapy_available = True,
       nmap_scan = NmapHosts [printer_host],
       srp = (\<lambda>ip. if ip = 167772162 then Answers [''aa:bb:cc:dd:ee:02''] else Answers []),
       gethostbyaddr = (\<lambda>ip. HostError),
       dhcp_table = NoLeases,
       timestamp = ''2024-05-01T10:00:00'' \<rparr>"

definition raising_probe_env :: discovery_env where
  "raising_probe_env =
     \<lparr> nmap_available = False, scapy_available = True,
       nmap_scan = NmapRaises,
       srp = (\<lambda>ip. if ip = 167772161 then ProbeRaises else Answers [''aa:bb:cc:dd:ee:02'']),
       gethostbyaddr = (\<lambda>ip. HostError),
       dhcp_table = NoLeases,
       timestamp = ''2024-05-01T10:00:00'' \<rparr>"

definition point_to_point :: "nat \<times> nat" where
  "point_to_point = (167772160, 31)"

definition gateway_host :: nmap_host where
  "gateway_host = \<lparr>nmap_address = ''10.0.0.0'', nmap_hostname = ''gw-a'',
                    nmap_mac = Some ''aa:bb:cc:dd:ee:00'',
                    nmap_os = JObj [(''name'', JStr ''Unknown''), (''accuracy'', JStr ''0''),
                                    (''matches'', JList [])],
                    nmap_ports = []\<rparr>"

definition point_to_point_env :: discovery_env where
  "point_to_point_env =
     \<lparr> nmap_available = True, scapy_available = True,
       nmap_scan = NmapHosts [gateway_host],
       srp = (\<lambda>ip. Answers []),
       gethostbyaddr = (\<lambda>ip. HostError),
       dhcp_table = NoLeases,
       timestamp = ''2024-05-01T10:00:00'' \<rparr>"

definition all_methods :: discovery_args where
  "all_methods = \<lparr>arg_subnet = small_subnet, arg_nmap = False, arg_arp = False,
                   arg_dhcp = False, arg_all = True\<rparr>"

section \<open>Properties\<close>

subsection \<open>Hostname normalization\<close>

















subsection \<open>Placement in the inventory tree\<close>

lemma os_from_assessment_range:
  "os_from_assessment device = Inr (Some g) \<Longrightarrow> g \<in> set os_family_groups"
  by (auto simp: os_from_assessment_def os_family_groups_def Let_def
      split: option.splits json.splits if_splits)

lemma os_from_ports_range: "os_from_ports device \<in> set os_family_groups"
  by (simp add: os_from_ports_def os_family_groups_def split: option.splits json.splits)

lemma determine_os_type_range:
  "determine_os_type device = Inr g \<Longrightarrow> g \<in> set os_family_groups"
  using os_from_assessment_range os_from_ports_range
  by (auto simp: determine_os_type_def split: sum.splits option.splits)

lemma role_from_ports_range: "role_from_ports device \<in> set device_roles"
  by (simp add: role_from_ports_def device_roles_def split: option.splits json.splits)

lemma determine_device_role_range:
  "determine_device_role device = Inr r \<Longrightarrow> r \<in> set device_roles"
  using role_from_ports_range[of device]
  by (auto simp: determine_device_role_def Let_def device_roles_def
      split: json.splits if_splits sum.splits bool.splits)

lemma classify_range:
  "classify device = Inr (Some (k, ip, g, r)) \<Longrightarrow> g \<in> set os_family_groups \<and> r \<in> set device_roles"
  using determine_os_type_range determine_device_role_range
  by (auto simp: classify_def Let_def split: if_splits sum.splits)

lemma tier_of_device_role:
  "r \<in> set device_roles \<Longrightarrow> r \<noteq> ''ungrouped'' \<Longrightarrow>
     \<exists>t. tier_of r = Some t \<and> (t, r) \<in> set tier_role_groups"
  by (auto simp: device_roles_def tier_of_def tier_role_groups_def)


lemma group_exists:
  "well_shaped tree \<Longrightarrow> g \<in> set os_family_groups \<Longrightarrow> \<exists>hs. os_types tree g = Some hs"
  "well_shaped tree \<Longrightarrow> tr \<in> set tier_role_groups \<Longrightarrow> \<exists>rs. tiers tree tr = Some rs"
  by (auto simp: well_shaped_def list_all_iff)

lemma add_host_effect:
  assumes ws: "well_shaped tree" and g: "g \<in> set os_family_groups" and r: "r \<in> set device_roles"
    and hv: "hardware_vars (connection_vars ip g) device = Inr hv"
    and t': "tree' = fst (add_host_to_inventory tree k ip g r device)"
  shows "well_shaped tree'"
    and "in_os tree' g' k' \<longleftrightarrow> in_os tree g' k' \<or> (g' = g \<and> k' = k)"
    and "in_role tree' (t, r') k' \<longleftrightarrow>
           in_role tree (t, r') k' \<or> (r \<noteq> ''ungrouped'' \<and> tier_of r = Some t \<and> r' = r \<and> k' = k)"
    and "in_ungrouped tree' k' \<longleftrightarrow> in_ungrouped tree k' \<or> (r = ''ungrouped'' \<and> k' = k)"
proof -
  obtain hs where hs: "os_types tree g = Some hs"
    using group_exists(1)[OF ws g] by blast
  have "well_shaped tree' \<and>
    (in_os tree' g' k' \<longleftrightarrow> in_os tree g' k' \<or> (g' = g \<and> k' = k)) \<and>
    (in_role tree' (t, r') k' \<longleftrightarrow>
           in_role tree (t, r') k' \<or> (r \<noteq> ''ungrouped'' \<and> tier_of r = Some t \<and> r' = r \<and> k' = k)) \<and>
    (in_ungrouped tree' k' \<longleftrightarrow> in_ungrouped tree k' \<or> (r = ''ungrouped'' \<and> k' = k))"
  proof (cases "r = ''ungrouped''")
    case True
    then have eq: "tree' = tree\<lparr>os_types := (os_types tree)(g \<mapsto> hs(k \<mapsto> hv)),
                              ungrouped := (ungrouped tree)(k \<mapsto> hv)\<rparr>"
      using hv hs t' by (simp add: add_host_to_inventory_def Let_def)
    have 1: "well_shaped tree'"
      using ws by (simp add: eq well_shaped_def list_all_iff)
    have 2: "in_os tree' g' k' \<longleftrightarrow> in_os tree g' k' \<or> (g' = g \<and> k' = k)"
      using hs by (simp add: eq in_os_def os_entry_def)
    have 3: "in_role tree' (t, r') k' \<longleftrightarrow>
           in_role tree (t, r') k' \<or> (r \<noteq> ''ungrouped'' \<and> tier_of r = Some t \<and> r' = r \<and> k' = k)"
      using True by (simp add: eq in_role_def role_entry_def)
    have 4: "in_ungrouped tree' k' \<longleftrightarrow> in_ungrouped tree k' \<or> (r = ''ungrouped'' \<and> k' = k)"
      using True by (simp add: eq in_ungrouped_def)
    from 1 2 3 4 show ?thesis by (intro conjI)
  next
    case False
    then obtain tg where tg: "tier_of r = Some tg" "(tg, r) \<in> set tier_role_groups"
      using tier_of_device_role[OF r] by blast
    then obtain rs where rs: "tiers tree (tg, r) = Some rs"
      using group_exists(2)[OF ws] by blast
    have eq: "tree' = tree\<lparr>os_types := (os_types tree)(g \<mapsto> hs(k \<mapsto> hv)),
                          tiers := (tiers tree)((tg, r) \<mapsto> rs(k \<mapsto> Map.empty))\<rparr>"
      using hv hs t' False tg rs by (simp add: add_host_to_inventory_def Let_def)
    have 1: "well_shaped tree'"
      using ws by (simp add: eq well_shaped_def list_all_iff)
    have 2: "in_os tree' g' k' \<longleftrightarrow> in_os tree g' k' \<or> (g' = g \<and> k' = k)"
      using hs by (simp add: eq in_os_def os_entry_def)
    have 3: "in_role tree' (t, r') k' \<longleftrightarrow>
           in_role tree (t, r') k' \<or> (r \<noteq> ''ungrouped'' \<and> tier_of r = Some t \<and> r' = r \<and> k' = k)"
      using False tg rs by (auto simp: eq in_role_def role_entry_def)
    have 4: "in_ungrouped tree' k' \<longleftrightarrow> in_ungrouped tree k' \<or> (r = ''ungrouped'' \<and> k' = k)"
      using False by (simp add: eq in_ungrouped_def)
    from 1 2 3 4 show ?thesis by (intro conjI)
  qed
  then show "well_shaped tree'"
    and "in_os tree' g' k' \<longleftrightarrow> in_os tree g' k' \<or> (g' = g \<and> k' = k)"
    and "in_role tree' (t, r') k' \<longleftrightarrow>
           in_role tree (t, r') k' \<or> (r \<noteq> ''ungrouped'' \<and> tier_of r = Some t \<and> r' = r \<and> k' = k)"
    and "in_ungrouped tree' k' \<longleftrightarrow> in_ungrouped tree k' \<or> (r = ''ungrouped'' \<and> k' = k)"
    by simp_all
qed

lemma process_device_unplaced:
  "placed d = None \<Longrightarrow> process_device tree d = Inr tree' \<Longrightarrow> tree' = tree"
  by (cases d) (auto simp: placed_def add_host_to_inventory_def
      split: sum.splits option.splits prod.splits)

lemma process_device_placed:
  assumes "placed d = Some (k, g, r)" and "process_device tree d = Inr tree'"
  shows "\<exists>ip device hv. g \<in> set os_family_groups \<and> r \<in> set device_roles \<and>
           hardware_vars (connection_vars ip g) device = Inr hv \<and>
           tree' = fst (add_host_to_inventory tree k ip g r device)"
proof -
  from assms(1) obtain device where d: "d = JObj device"
    by (cases d) (auto simp: placed_def)
  from assms(1) d obtain ip hv where c: "classify device = Inr (Some (k, ip, g, r))"
    and h: "hardware_vars (connection_vars ip g) device = Inr hv"
    by (auto simp: placed_def split: sum.splits option.splits prod.splits)
  from assms(2) d c have "tree' = fst (add_host_to_inventory tree k ip g r device)"
    by simp
  with classify_range[OF c] h show ?thesis by blast
qed


lemma placed_cases:
  obtains (unplaced) "placed d = None"
  | (placed) k g r where "placed d = Some (k, g, r)"
  by (cases "placed d") auto

lemma process_device_step:
  assumes ws: "well_shaped tree" and p: "process_device tree d = Inr tree'"
  shows "well_shaped tree'"
    and "in_os tree' g k \<longleftrightarrow> in_os tree g k \<or> (\<exists>r. placed d = Some (k, g, r))"
    and "in_role tree' (t, r) k \<longleftrightarrow>
        in_role tree (t, r) k \<or>
        (r \<noteq> ''ungrouped'' \<and> tier_of r = Some t \<and> (\<exists>g. placed d = Some (k, g, r)))"
    and "in_ungrouped tree' k \<longleftrightarrow>
        in_ungrouped tree k \<or> (\<exists>g. placed d = Some (k, g, ''ungrouped''))"
proof -
  have "well_shaped tree' \<and>
     (in_os tree' g k \<longleftrightarrow> in_os tree g k \<or> (\<exists>r. placed d = Some (k, g, r))) \<and>
     (in_role tree' (t, r) k \<longleftrightarrow>
        in_role tree (t, r) k \<or>
        (r \<noteq> ''ungrouped'' \<and> tier_of r = Some t \<and> (\<exists>g. placed d = Some (k, g, r)))) \<and>
     (in_ungrouped tree' k \<longleftrightarrow>
        in_ungrouped tree k \<or> (\<exists>g. placed d = Some (k, g, ''ungrouped'')))"
  proof (cases d rule: placed_cases)
    case unplaced
    with p have "tree' = tree" by (simp add: process_device_unplaced)
    with unplaced ws show ?thesis by simp
  next
    case (placed k0 g0 r0)
    from process_device_placed[OF placed p]
    obtain ip device hv where g: "g0 \<in> set os_family_groups" and r: "r0 \<in> set device_roles"
      and hv: "hardware_vars (connection_vars ip g0) device = Inr hv"
      and t: "tree' = fst (add_host_to_inventory tree k0 ip g0 r0 device)"
      by blast
    note e = add_host_effect[OF ws g r hv t]
    show ?thesis
      using e(1) unfolding placed e(2-4) by auto
  qed
  then show "well_shaped tree'"
    and "in_os tree' g k \<longleftrightarrow> in_os tree g k \<or> (\<exists>r. placed d = Some (k, g, r))"
    and "in_role tree' (t, r) k \<longleftrightarrow>
        in_role tree (t, r) k \<or>
        (r \<noteq> ''ungrouped'' \<and> tier_of r = Some t \<and> (\<exists>g. placed d = Some (k, g, r)))"
    and "in_ungrouped tree' k \<longleftrightarrow>
        in_ungrouped tree k \<or> (\<exists>g. placed d = Some (k, g, ''ungrouped''))"
    by simp_all
qed



lemma process_devices_Cons:
  assumes "process_devices tree (d # ds) = Inr tree'"
  obtains tree1 where "process_device tree d = Inr tree1" and "process_devices tree1 ds = Inr tree'"
  using assms by (cases "process_device tree d") simp_all

lemma process_devices_ws:
  "well_shaped tree \<Longrightarrow> process_devices tree ds = Inr tree' \<Longrightarrow> well_shaped tree'"
proof (induction ds arbitrary: tree)
  case Nil
  then show ?case by simp
next
  case (Cons d ds)
  from Cons.prems(2) obtain tree1 where s1: "process_device tree d = Inr tree1"
    and s2: "process_devices tree1 ds = Inr tree'"
    by (rule process_devices_Cons)
  from Cons.IH[OF process_device_step(1)[OF Cons.prems(1) s1] s2] show ?case .
qed










lemmas str_defs = py_lower_def lower_char_def prefix_digit_def sanitize_def
        split_dot_first_def allowed_char_def py_isalnum_def py_isdigit_def replace_dots_def

lemmas classify_defs = classify_def dict_get_def dict_get_default_def safe_hostname_def
  determine_os_type_def os_from_assessment_def os_from_ports_def any_port_def
  determine_device_role_def virtualization_flag_def role_from_ports_def











lemma cpu_vars_keeps:
  "cpu_vars hv0 hardware = Inr hv \<Longrightarrow> v \<notin> set hardware_keys \<Longrightarrow> hv v = hv0 v"
  by (auto simp: cpu_vars_def hardware_keys_def split: option.splits sum.splits)

lemma memory_vars_keeps:
  "memory_vars hv0 hardware = Inr hv \<Longrightarrow> v \<notin> set hardware_keys \<Longrightarrow> hv v = hv0 v"
  by (auto simp: memory_vars_def hardware_keys_def split: option.splits sum.splits)

lemma virtualization_vars_keeps:
  "v \<notin> set hardware_keys \<Longrightarrow> virtualization_vars hv0 hardware v = hv0 v"
  by (auto simp: virtualization_vars_def hardware_keys_def split: option.splits)

lemma hardware_vars_keeps:
  assumes "hardware_vars hv0 device = Inr hv" and "v \<notin> set hardware_keys"
  shows "hv v = hv0 v"
proof (cases "map_of device ''hardware''")
  case None
  with assms show ?thesis by (simp add: hardware_vars_def)
next
  case (Some hw)
  show ?thesis
  proof (cases hw)
    case (JObj hardware)
    with Some assms(1) obtain hv1 hv2 where 1: "cpu_vars hv0 hardware = Inr hv1"
      and 2: "memory_vars hv1 hardware = Inr hv2"
      and 3: "hv = virtualization_vars hv2 hardware"
      by (auto simp: hardware_vars_def split: sum.splits)
    show ?thesis
      unfolding 3 virtualization_vars_keeps[OF assms(2)]
        memory_vars_keeps[OF 2 assms(2)] cpu_vars_keeps[OF 1 assms(2)] ..
  qed (use Some assms in \<open>simp_all add: hardware_vars_def\<close>)
qed

lemma connection_vars_values:
  "connection_vars ip os_type ''ansible_host'' = Some ip"
  "connection_vars ip os_type ''ansible_connection'' =
     (if os_type = ''windows'' then Some (JStr ''winrm'')
      else if os_type = ''linux'' \<or> os_type = ''macos'' then Some (JStr ''ssh'')
      else None)"
  "connection_vars ip os_type ''ansible_winrm_server_cert_validation'' =
     (if os_type = ''windows'' then Some (JStr ''ignore'') else None)"
  by (auto simp: connection_vars_def Let_def)

lemma add_host_entries:
  assumes "add_host_to_inventory tree hostname ip os_type role device = (tree', None)"
  shows "\<exists>hv. hardware_vars (connection_vars ip os_type) device = Inr hv \<and>
           os_entry tree' os_type hostname = Some hv \<and>
           (role = ''ungrouped'' \<longrightarrow> ungrouped tree' hostname = Some hv)"
    and "role \<noteq> ''ungrouped'' \<Longrightarrow> tier_of role = Some t \<Longrightarrow>
           role_entry tree' (t, role) hostname = Some Map.empty"
proof -
  from assms obtain hv where hv: "hardware_vars (connection_vars ip os_type) device = Inr hv"
    by (cases "hardware_vars (connection_vars ip os_type) device")
      (simp_all add: add_host_to_inventory_def)
  from assms hv obtain hs where hs: "os_types tree os_type = Some hs"
    by (cases "os_types tree os_type") (simp_all add: add_host_to_inventory_def)
  let ?t1 = "tree\<lparr>os_types := (os_types tree)(os_type \<mapsto> hs(hostname \<mapsto> hv))\<rparr>"
  show "\<exists>hv. hardware_vars (connection_vars ip os_type) device = Inr hv \<and>
           os_entry tree' os_type hostname = Some hv \<and>
           (role = ''ungrouped'' \<longrightarrow> ungrouped tree' hostname = Some hv)"
  proof (cases "role = ''ungrouped''")
    case True
    with assms hv hs have "tree' = ?t1\<lparr>ungrouped := (ungrouped ?t1)(hostname \<mapsto> hv)\<rparr>"
      by (simp add: add_host_to_inventory_def Let_def)
    with hv show ?thesis by (simp add: os_entry_def)
  next
    case False
    with assms hv hs have "os_types tree' = os_types ?t1"
      by (auto simp: add_host_to_inventory_def Let_def split: option.splits)
    with hv False show ?thesis by (simp add: os_entry_def)
  qed
  show "role_entry tree' (t, role) hostname = Some Map.empty"
    if "role \<noteq> ''ungrouped''" "tier_of role = Some t"
    using assms hv hs that
    by (auto simp: add_host_to_inventory_def Let_def role_entry_def split: option.splits)
qed

text \<open>
  C4 (as the code has it). After \<open>_add_host_to_inventory\<close> has placed a host, its entry
  under the OS-family group carries \<open>ansible_host\<close> and a connection transport chosen
  by the family: \<open>winrm\<close> with certificate validation \<open>ignore\<close> for \<open>windows\<close>,
  \<open>ssh\<close> for \<open>linux\<close> and \<open>macos\<close>, and no transport variable for the other
  families (\<open>network_devices\<close>, \<open>other\<close>). The entry under the tier/role group, when
  the role has one, is the empty mapping.
\<close>

theorem host_vars_carry_transport_by_os_family:
  assumes "add_host_to_inventory tree hostname ip os_type role device = (tree', None)"
  shows "(\<exists>hv. os_entry tree' os_type hostname = Some hv \<and>
            hv ''ansible_host'' = Some ip \<and>
            hv ''ansible_connection'' =
              (if os_type = ''windows'' then Some (JStr ''winrm'')
               else if os_type = ''linux'' \<or> os_type = ''macos'' then Some (JStr ''ssh'')
               else None) \<and>
            hv ''ansible_winrm_server_cert_validation'' =
              (if os_type = ''windows'' then Some (JStr ''ignore'') else None))
       \<and> (role \<noteq> ''ungrouped'' \<and> tier_of role = Some t \<longrightarrow>
            role_entry tree' (t, role) hostname = Some Map.empty)"
proof -
  from add_host_entries(1)[OF assms] obtain hv
    where hv: "hardware_vars (connection_vars ip os_type) device = Inr hv"
      and e: "os_entry tree' os_type hostname = Some hv"
    by blast
  have k: "''ansible_host'' \<notin> set hardware_keys" "''ansible_connection'' \<notin> set hardware_keys"
    "''ansible_winrm_server_cert_validation'' \<notin> set hardware_keys"
    by (simp_all add: hardware_keys_def)
  have "hv ''ansible_host'' = Some ip"
    "hv ''ansible_connection'' =
              (if os_type = ''windows'' then Some (JStr ''winrm'')
               else if os_type = ''linux'' \<or> os_type = ''macos'' then Some (JStr ''ssh'')
               else None)"
    "hv ''ansible_winrm_server_cert_validation'' =
              (if os_type = ''windows'' then Some (JStr ''ignore'') else None)"
    unfolding hardware_vars_keeps[OF hv k(1)] hardware_vars_keeps[OF hv k(2)]
      hardware_vars_keeps[OF hv k(3)] connection_vars_values by (rule refl)+
  with e have 1: "\<exists>hv. os_entry tree' os_type hostname = Some hv \<and>
            hv ''ansible_host'' = Some ip \<and>
            hv ''ansible_connection'' =
              (if os_type = ''windows'' then Some (JStr ''winrm'')
               else if os_type = ''linux'' \<or> os_type = ''macos'' then Some (JStr ''ssh'')
               else None) \<and>
            hv ''ansible_winrm_server_cert_validation'' =
              (if os_type = ''windows'' then Some (JStr ''ignore'') else None)"
    by blast
  have 2: "role \<noteq> ''ungrouped'' \<and> tier_of role = Some t \<longrightarrow>
            role_entry tree' (t, role) hostname = Some Map.empty"
    using add_host_entries(2)[OF assms] by blast
  from 1 2 show ?thesis by (rule conjI)
qed

lemmas add_defs = add_host_to_inventory_def hardware_vars_def create_base_inventory_def
      os_family_groups_def tier_role_groups_def tier_of_def Let_def

lemma windows_classify:
  "classify windows_device = Inr (Some (''db01'', JStr ''10.0.0.7'', ''windows'', ''business''))"
  by (simp add: windows_device_def classify_defs str_defs)

lemma windows_added:
  "snd (add_host_to_inventory create_base_inventory ''db01'' (JStr ''10.0.0.7'') ''windows''
          ''business'' windows_device) = None"
  by (simp add: add_defs windows_device_def)

theorem host_vars_carry_transport_by_os_family_witness:
  "snd (add_host_to_inventory create_base_inventory ''db01'' (JStr ''10.0.0.7'') ''windows''
          ''business'' windows_device) = None
   \<and> tier_of ''business'' = Some ''tier3_applications''
   \<and> (\<exists>hv. os_entry (fst (add_host_to_inventory create_base_inventory ''db01'' (JStr ''10.0.0.7'')
                ''windows'' ''business'' windows_device)) ''windows'' ''db01'' = Some hv \<and>
            hv ''ansible_host'' = Some (JStr ''10.0.0.7'') \<and>
            hv ''ansible_connection'' = Some (JStr ''winrm'') \<and>
            hv ''ansible_winrm_server_cert_validation'' = Some (JStr ''ignore''))
   \<and> role_entry (fst (add_host_to_inventory create_base_inventory ''db01'' (JStr ''10.0.0.7'')
                ''windows'' ''business'' windows_device)) (''tier3_applications'', ''business'')
          ''db01'' = Some Map.empty"
proof -
  let ?r = "add_host_to_inventory create_base_inventory ''db01'' (JStr ''10.0.0.7'') ''windows''
          ''business'' windows_device"
  have h: "?r = (fst ?r, None)"
    using windows_added by (simp add: prod_eq_iff)
  have t: "tier_of ''business'' = Some ''tier3_applications''"
    by (simp add: tier_of_def)
  from host_vars_carry_transport_by_os_family[OF h, of "''tier3_applications''"] t windows_added
  show ?thesis by simp
qed

text \<open>
  The record of the spec's own scenario (hostname \<open>web01.example.com\<close>, port 80 open)
  is of family \<open>other\<close>: its host variables are the address alone.
\<close>

theorem other_family_gets_no_transport:
  "classify web_device = Inr (Some (''web01'', JStr ''10.0.0.5'', ''other'', ''cloud''))
   \<and> snd (add_host_to_inventory create_base_inventory ''web01'' (JStr ''10.0.0.5'') ''other''
          ''cloud'' web_device) = None
   \<and> os_entry (fst (add_host_to_inventory create_base_inventory ''web01'' (JStr ''10.0.0.5'')
          ''other'' ''cloud'' web_device)) ''other'' ''web01''
       = Some [''ansible_host'' \<mapsto> JStr ''10.0.0.5'']
   \<and> [''ansible_host'' \<mapsto> JStr ''10.0.0.5''] ''ansible_connection'' = None"
proof -
  have 1: "classify web_device = Inr (Some (''web01'', JStr ''10.0.0.5'', ''other'', ''cloud''))"
    by (simp add: web_device_def classify_defs str_defs)
  have 2: "snd (add_host_to_inventory create_base_inventory ''web01'' (JStr ''10.0.0.5'') ''other''
          ''cloud'' web_device) = None"
    by (simp add: add_defs web_device_def)
  have 3: "os_entry (fst (add_host_to_inventory create_base_inventory ''web01'' (JStr ''10.0.0.5'')
          ''other'' ''cloud'' web_device)) ''other'' ''web01''
       = Some [''ansible_host'' \<mapsto> JStr ''10.0.0.5'']"
    by (simp add: add_defs web_device_def os_entry_def connection_vars_def)
  have 4: "[''ansible_host'' \<mapsto> JStr ''10.0.0.5''] ''ansible_connection'' = None"
    by simp
  from 1 2 3 4 show ?thesis by (intro conjI)
qed

lemma null_hostname_role:
  "map_of device ''hostname'' = Some JNull \<Longrightarrow> determine_device_role device = Inl AttributeError"
  by (simp add: determine_device_role_def dict_get_default_def)

lemma null_hostname_classify:
  assumes "map_of device ''hostname'' = Some JNull"
  shows "classify device \<noteq> Inr (Some p)"
  using null_hostname_role[OF assms]
  by (auto simp: classify_def Let_def split: sum.splits)

lemma null_hostname_process:
  assumes "map_of device ''hostname'' = Some JNull"
  shows "process_device tree (JObj device) = Inr tree"
proof (cases "classify device")
  case (Inl e)
  then show ?thesis by simp
next
  case (Inr c)
  with null_hostname_classify[OF assms] have "c = None" by (cases c) auto
  with Inr show ?thesis by simp
qed

lemma process_devices_skip:
  "process_device tree d = Inr tree \<Longrightarrow> (\<And>tr. process_device tr d = Inr tr) \<Longrightarrow>
     process_devices tree (ds1 @ d # ds2) = process_devices tree (ds1 @ ds2)"
proof (induction ds1 arbitrary: tree)
  case Nil
  then show ?case by simp
next
  case (Cons a ds1)
  show ?case
  proof (cases "process_device tree a")
    case (Inl e)
    then show ?thesis by simp
  next
    case (Inr tree1)
    with Cons.IH[of tree1] Cons.prems(2) show ?thesis by simp
  qed
qed

text \<open>
  C10. A device record whose \<open>hostname\<close> is present and null: role determination
  raises \<open>AttributeError\<close> on it, no placement is computed, and the loop gives the
  same result as on the list without the record, so the record adds no entry to any group.
\<close>

theorem null_hostname_device_is_left_out:
  assumes "map_of device ''hostname'' = Some JNull"
  shows "determine_device_role device = Inl AttributeError
       \<and> placed (JObj device) = None
       \<and> process_devices tree (ds1 @ JObj device # ds2) = process_devices tree (ds1 @ ds2)"
proof -
  have 1: "determine_device_role device = Inl AttributeError"
    using assms by (rule null_hostname_role)
  have 2: "placed (JObj device) = None"
    using null_hostname_classify[OF assms]
    by (auto simp: placed_def split: sum.splits option.splits)
  have 3: "process_devices tree (ds1 @ JObj device # ds2) = process_devices tree (ds1 @ ds2)"
    by (rule process_devices_skip; rule null_hostname_process[OF assms])
  from 1 2 3 show ?thesis by (intro conjI)
qed

theorem null_hostname_device_is_left_out_witness:
  "map_of null_hostname_device ''hostname'' = Some JNull
   \<and> determine_device_role null_hostname_device = Inl AttributeError
   \<and> process_devices create_base_inventory [JObj null_hostname_device, JObj web_device]
       = process_devices create_base_inventory [JObj web_device]
   \<and> generate_inventory (JList [JObj null_hostname_device]) = Inr (True, create_base_inventory)"
proof -
  have h: "map_of null_hostname_device ''hostname'' = Some JNull"
    by (simp add: null_hostname_device_def)
  note t1 = null_hostname_device_is_left_out[OF h, of create_base_inventory "[]" "[JObj web_device]"]
  note t2 = null_hostname_device_is_left_out[OF h, of create_base_inventory "[]" "[]"]
  have "generate_inventory (JList [JObj null_hostname_device]) = Inr (True, create_base_inventory)"
    using t2 by (simp add: generate_inventory_def)
  with h t1 show ?thesis by simp
qed

subsection \<open>Assessment and entry points\<close>

lemma map_of_dict_set: "map_of (dict_set d k v) = (map_of d)(k \<mapsto> v)"
  by (induction d) (auto simp: fun_eq_iff)

lemma dict_set_not_empty: "dict_set d k v \<noteq> []"
  by (cases d) (auto split: if_splits)

lemma chain_reaches_basic_scan:
  assumes "\<not> (paramiko_available env \<and> port_open env ip SSH_PORT) \<or> ssh_session env ip = SshFails"
    and "\<not> (wmi_available env \<and> port_open env ip WINRM_PORT) \<or> wmi_session env ip = None"
  shows "assess_device env ip =
           (case assess_via_basic_scan env ip of
              None \<Rightarrow> Inr None
            | Some a \<Rightarrow> Inr (Some (dict_set a ''assessment_timestamp'' (JStr (clock env)))))"
proof -
  have 1: "(if paramiko_available env \<and> port_open env ip SSH_PORT
            then assess_via_ssh env ip else Inr None) = Inr None"
    using assms(1) by (auto simp: assess_via_ssh_def)
  have 2: "(if no_assessment None \<and> wmi_available env \<and> port_open env ip WINRM_PORT
            then assess_via_winrm env ip else None) = None"
    using assms(2) by (auto simp: assess_via_winrm_def)
  have 3: "assess_via_basic_scan env ip = Some a \<Longrightarrow> a \<noteq> []" for a
    by (auto simp: assess_via_basic_scan_def Let_def split: ping_result.splits if_splits)
  show ?thesis
    unfolding assess_device_def 1 sum.case Let_def 2
    using 3 by (auto simp: no_assessment_def split: option.splits)
qed

lemma guess_os_type_rule:
  "guess_os_type (filter P common_ports) =
     (if P 3389 \<or> P 5985 then ''windows''
      else if P 22 \<and> \<not> P 445 then ''linux''
      else ''unknown'')"
  by (simp add: guess_os_type_def common_ports_def)

lemma chain_ends_in_basic_scan:
  assumes "\<not> (paramiko_available env \<and> port_open env ip SSH_PORT) \<or> ssh_session env ip = SshFails"
    and "\<not> (wmi_available env \<and> port_open env ip WINRM_PORT) \<or> wmi_session env ip = None"
    and "ping env ip = PingExit 0"
  shows "\<exists>a. assess_device env ip = Inr (Some a) \<and>
           map_of a ''assessment_method'' = Some (JStr ''basic_scan'') \<and>
           map_of a ''operating_system'' =
             Some (JObj [(''type'', JStr
               (if port_open env ip 3389 \<or> port_open env ip 5985 then ''windows''
                else if port_open env ip 22 \<and> \<not> port_open env ip 445 then ''linux''
                else ''unknown''))]) \<and>
           map_of a ''hardware'' = None"
proof -
  let ?ports = "filter (port_open env ip) common_ports"
  let ?a = "[(''assessment_method'', JStr ''basic_scan''),
             (''operating_system'', JObj [(''type'', JStr (guess_os_type ?ports))]),
             (''network'', JObj [(''open_ports'', JList (map JInt ?ports))])]"
  have b: "assess_via_basic_scan env ip = Some ?a"
    using assms(3) by (simp add: assess_via_basic_scan_def Let_def)
  have "assess_device env ip = Inr (Some (dict_set ?a ''assessment_timestamp'' (JStr (clock env))))"
    unfolding chain_reaches_basic_scan[OF assms(1,2)] b by simp
  moreover have "map_of (dict_set ?a ''assessment_timestamp'' (JStr (clock env))) ''assessment_method''
      = Some (JStr ''basic_scan'')"
    unfolding map_of_dict_set by simp
  moreover have "map_of (dict_set ?a ''assessment_timestamp'' (JStr (clock env))) ''operating_system''
      = Some (JObj [(''type'', JStr
               (if port_open env ip 3389 \<or> port_open env ip 5985 then ''windows''
                else if port_open env ip 22 \<and> \<not> port_open env ip 445 then ''linux''
                else ''unknown''))])"
    unfolding map_of_dict_set guess_os_type_rule by simp
  moreover have "map_of (dict_set ?a ''assessment_timestamp'' (JStr (clock env))) ''hardware'' = None"
    unfolding map_of_dict_set by simp
  ultimately show ?thesis by blast
qed

lemma chain_stops_at_ssh:
  assumes "paramiko_available env" "port_open env ip SSH_PORT" "ssh_session env ip = SshFacts f"
  shows "\<exists>a. assess_device env ip = Inr (Some a) \<and>
           map_of a ''assessment_method'' = Some (JStr ''ssh'')"
proof -
  obtain a where a: "assess_via_ssh env ip = Inr (Some a)" "a \<noteq> []"
    "map_of a ''assessment_method'' = Some (JStr ''ssh'')"
    using assms by (simp add: assess_via_ssh_def)
  then have "assess_device env ip = Inr (Some (dict_set a ''assessment_timestamp'' (JStr (clock env))))"
    using assms(1,2) by (simp add: assess_device_def no_assessment_def Let_def)
  with a(3) show ?thesis by (simp add: map_of_dict_set)
qed

lemma chain_stops_at_winrm:
  assumes "\<not> (paramiko_available env \<and> port_open env ip SSH_PORT) \<or> ssh_session env ip = SshFails"
    and "wmi_available env" "port_open env ip WINRM_PORT" "wmi_session env ip = Some f"
  shows "\<exists>a. assess_device env ip = Inr (Some a) \<and>
           map_of a ''assessment_method'' = Some (JStr ''winrm'')"
proof -
  have 1: "(if paramiko_available env \<and> port_open env ip SSH_PORT
            then assess_via_ssh env ip else Inr None) = Inr None"
    using assms(1) by (auto simp: assess_via_ssh_def)
  obtain a where a: "assess_via_winrm env ip = Some a" "a \<noteq> []"
    "map_of a ''assessment_method'' = Some (JStr ''winrm'')"
    using assms(2,4) by (simp add: assess_via_winrm_def)
  have "assess_device env ip = Inr (Some (dict_set a ''assessment_timestamp'' (JStr (clock env))))"
    unfolding assess_device_def 1 using a(1,2) assms(2,3)
    by (simp add: no_assessment_def Let_def)
  with a(3) show ?thesis by (simp add: map_of_dict_set)
qed

text \<open>
  C5. The chain is tried in order and stops at the first method that gives an assessment:
  a successful remote-shell session gives the method \<open>ssh\<close>; when the remote shell
  gives nothing (the library or the port is missing, or the session fails) a successful
  management session gives \<open>winrm\<close>. A device for which both give nothing and which
  answers the ping gets an assessment whose method is \<open>basic_scan\<close>, whose OS type is
  \<open>windows\<close> when port 3389 or 5985 is open, \<open>linux\<close> when port 22 is open and
  port 445 is not, \<open>unknown\<close> otherwise, and which has no \<open>hardware\<close> key.
\<close>

theorem fallback_chain_ends_in_basic_scan:
  "(paramiko_available env \<and> port_open env ip SSH_PORT \<and> ssh_session env ip = SshFacts f
      \<longrightarrow> (\<exists>a. assess_device env ip = Inr (Some a) \<and>
                map_of a ''assessment_method'' = Some (JStr ''ssh'')))
   \<and> ((\<not> (paramiko_available env \<and> port_open env ip SSH_PORT) \<or> ssh_session env ip = SshFails) \<and>
       wmi_available env \<and> port_open env ip WINRM_PORT \<and> wmi_session env ip = Some w
      \<longrightarrow> (\<exists>a. assess_device env ip = Inr (Some a) \<and>
                map_of a ''assessment_method'' = Some (JStr ''winrm'')))
   \<and> ((\<not> (paramiko_available env \<and> port_open env ip SSH_PORT) \<or> ssh_session env ip = SshFails) \<and>
       (\<not> (wmi_available env \<and> port_open env ip WINRM_PORT) \<or> wmi_session env ip = None) \<and>
       ping env ip = PingExit 0
      \<longrightarrow> (\<exists>a. assess_device env ip = Inr (Some a) \<and>
             map_of a ''assessment_method'' = Some (JStr ''basic_scan'') \<and>
             map_of a ''operating_system'' =
               Some (JObj [(''type'', JStr
                 (if port_open env ip 3389 \<or> port_open env ip 5985 then ''windows''
                  else if port_open env ip 22 \<and> \<not> port_open env ip 445 then ''linux''
                  else ''unknown''))]) \<and>
             map_of a ''hardware'' = None))"
proof (intro conjI impI)
  assume "paramiko_available env \<and> port_open env ip SSH_PORT \<and> ssh_session env ip = SshFacts f"
  then show "\<exists>a. assess_device env ip = Inr (Some a) \<and>
                map_of a ''assessment_method'' = Some (JStr ''ssh'')"
    using chain_stops_at_ssh by blast
next
  assume "(\<not> (paramiko_available env \<and> port_open env ip SSH_PORT) \<or> ssh_session env ip = SshFails) \<and>
       wmi_available env \<and> port_open env ip WINRM_PORT \<and> wmi_session env ip = Some w"
  then show "\<exists>a. assess_device env ip = Inr (Some a) \<and>
                map_of a ''assessment_method'' = Some (JStr ''winrm'')"
    using chain_stops_at_winrm[of env ip w] by blast
next
  assume a: "(\<not> (paramiko_available env \<and> port_open env ip SSH_PORT) \<or> ssh_session env ip = SshFails) \<and>
       (\<not> (wmi_available env \<and> port_open env ip WINRM_PORT) \<or> wmi_session env ip = None) \<and>
       ping env ip = PingExit 0"
  then have 1: "\<not> (paramiko_available env \<and> port_open env ip SSH_PORT) \<or> ssh_session env ip = SshFails"
    and 2: "\<not> (wmi_available env \<and> port_open env ip WINRM_PORT) \<or> wmi_session env ip = None"
    and 3: "ping env ip = PingExit 0"
    by auto
  show "\<exists>a. assess_device env ip = Inr (Some a) \<and>
             map_of a ''assessment_method'' = Some (JStr ''basic_scan'') \<and>
             map_of a ''operating_system'' =
               Some (JObj [(''type'', JStr
                 (if port_open env ip 3389 \<or> port_open env ip 5985 then ''windows''
                  else if port_open env ip 22 \<and> \<not> port_open env ip 445 then ''linux''
                  else ''unknown''))]) \<and>
             map_of a ''hardware'' = None"
    by (rule chain_ends_in_basic_scan[OF 1 2 3])
qed

theorem fallback_chain_ends_in_basic_scan_witness:
  "paramiko_available shell_only_env \<and> port_open shell_only_env (JStr ''10.0.0.8'') SSH_PORT
   \<and> ssh_session shell_only_env (JStr ''10.0.0.8'') = SshFacts example_facts
   \<and> (\<exists>a. assess_device shell_only_env (JStr ''10.0.0.8'') = Inr (Some a) \<and>
           map_of a ''assessment_method'' = Some (JStr ''ssh''))
   \<and> ssh_session management_only_env (JStr ''10.0.0.8'') = SshFails
   \<and> wmi_available management_only_env
   \<and> port_open management_only_env (JStr ''10.0.0.8'') WINRM_PORT
   \<and> wmi_session management_only_env (JStr ''10.0.0.8'') = Some example_wmi_facts
   \<and> (\<exists>a. assess_device management_only_env (JStr ''10.0.0.8'') = Inr (Some a) \<and>
           map_of a ''assessment_method'' = Some (JStr ''winrm''))
   \<and> ssh_session ping_only_env (JStr ''10.0.0.8'') = SshFails
   \<and> \<not> wmi_available ping_only_env
   \<and> ping ping_only_env (JStr ''10.0.0.8'') = PingExit 0
   \<and> (\<exists>a. assess_device ping_only_env (JStr ''10.0.0.8'') = Inr (Some a) \<and>
           map_of a ''assessment_method'' = Some (JStr ''basic_scan'') \<and>
           map_of a ''operating_system'' = Some (JObj [(''type'', JStr ''linux'')]) \<and>
           map_of a ''hardware'' = None)"
proof -
  let ?ip = "JStr ''10.0.0.8''"
  have s: "paramiko_available shell_only_env" "port_open shell_only_env ?ip SSH_PORT"
    "ssh_session shell_only_env ?ip = SshFacts example_facts"
    by (simp_all add: shell_only_env_def SSH_PORT_def)
  have m: "ssh_session management_only_env ?ip = SshFails" "wmi_available management_only_env"
    "port_open management_only_env ?ip WINRM_PORT"
    "wmi_session management_only_env ?ip = Some example_wmi_facts"
    by (simp_all add: management_only_env_def WINRM_PORT_def)
  have p: "ssh_session ping_only_env ?ip = SshFails" "\<not> wmi_available ping_only_env"
    "ping ping_only_env ?ip = PingExit 0"
    by (simp_all add: ping_only_env_def)
  have q: "port_open ping_only_env ?ip = (\<lambda>p. p = 22)"
    by (simp add: ping_only_env_def)
  note t1 = fallback_chain_ends_in_basic_scan[of shell_only_env ?ip example_facts example_wmi_facts]
  note t2 = fallback_chain_ends_in_basic_scan[of management_only_env ?ip example_facts example_wmi_facts]
  note t3 = fallback_chain_ends_in_basic_scan[of ping_only_env ?ip example_facts example_wmi_facts]
  have 1: "\<exists>a. assess_device shell_only_env ?ip = Inr (Some a) \<and>
           map_of a ''assessment_method'' = Some (JStr ''ssh'')"
    using t1 s by blast
  have 2: "\<exists>a. assess_device management_only_env ?ip = Inr (Some a) \<and>
           map_of a ''assessment_method'' = Some (JStr ''winrm'')"
    using t2 m by blast
  have 3: "\<exists>a. assess_device ping_only_env ?ip = Inr (Some a) \<and>
           map_of a ''assessment_method'' = Some (JStr ''basic_scan'') \<and>
           map_of a ''operating_system'' = Some (JObj [(''type'', JStr ''linux'')]) \<and>
           map_of a ''hardware'' = None"
    using t3 p unfolding q by simp
  from s 1 m 2 p 3 show ?thesis by (intro conjI)
qed

lemma assess_loop_skip:
  assumes "\<And>acc. assess_one env acc d = Inr acc"
  shows "assess_loop env assessed (ds1 @ d # ds2) = assess_loop env assessed (ds1 @ ds2)"
proof (induction ds1 arbitrary: assessed)
  case Nil
  show ?case by (simp add: assms)
next
  case (Cons a ds1)
  show ?case
  proof (cases "assess_one env assessed a")
    case (Inl e)
    then show ?thesis by simp
  next
    case (Inr assessed1)
    with Cons[of assessed1] show ?thesis by simp
  qed
qed

lemma raising_device_skipped:
  "assess_device env (dict_get device ''ip_address'') = Inl e \<Longrightarrow>
     assess_one env acc (JObj device) = Inr acc"
  by (simp add: Let_def)

lemma silent_device_skipped:
  assumes "\<not> (paramiko_available env \<and> port_open env ip SSH_PORT) \<or> ssh_session env ip = SshFails"
    and "\<not> (wmi_available env \<and> port_open env ip WINRM_PORT) \<or> wmi_session env ip = None"
    and "ping env ip \<noteq> PingExit 0"
    and "ip = dict_get device ''ip_address''"
  shows "assess_one env acc (JObj device) = Inr acc"
proof -
  have "assess_via_basic_scan env ip = None"
    using assms(3) by (cases "ping env ip") (simp_all add: assess_via_basic_scan_def)
  then have "assess_device env ip = Inr None"
    unfolding chain_reaches_basic_scan[OF assms(1,2)] by simp
  then show ?thesis
    unfolding assms(4) by (simp add: Let_def)
qed

lemma assess_one_total: "is_object d \<Longrightarrow> \<exists>acc'. assess_one env acc d = Inr acc'"
  by (cases d) (auto simp: Let_def split: sum.splits option.splits)

lemma assess_loop_total:
  "list_all is_object ds \<Longrightarrow> \<exists>result. assess_loop env acc ds = Inr result"
proof (induction ds arbitrary: acc)
  case Nil
  then show ?case by simp
next
  case (Cons d ds)
  then obtain acc1 where "assess_one env acc d = Inr acc1"
    using assess_one_total[of d env acc] by auto
  with Cons show ?case by simp
qed

text \<open>
  What holds of the batch. A batch of device objects always runs to its end. A device for
  which the remote-shell and the management attempt give nothing and whose ping fails
  (or cannot be run) adds no record: the batch gives the same list as without it. A
  device object whose assessment raises adds no record either, and the batch goes on.
\<close>

lemma unassessable_device_is_dropped:
  "(list_all is_object ds \<longrightarrow> (\<exists>result. assess_loop env assessed ds = Inr result))
   \<and> (ip = dict_get device ''ip_address'' \<and>
      (\<not> (paramiko_available env \<and> port_open env ip SSH_PORT) \<or> ssh_session env ip = SshFails) \<and>
      (\<not> (wmi_available env \<and> port_open env ip WINRM_PORT) \<or> wmi_session env ip = None) \<and>
      ping env ip \<noteq> PingExit 0
      \<longrightarrow> assess_loop env assessed (ds1 @ JObj device # ds2) = assess_loop env assessed (ds1 @ ds2))
   \<and> (assess_device env (dict_get device ''ip_address'') = Inl e
      \<longrightarrow> assess_loop env assessed (ds1 @ JObj device # ds2) = assess_loop env assessed (ds1 @ ds2))"
proof (intro conjI impI)
  assume "list_all is_object ds"
  then show "\<exists>result. assess_loop env assessed ds = Inr result"
    by (rule assess_loop_total)
next
  assume a: "ip = dict_get device ''ip_address'' \<and>
      (\<not> (paramiko_available env \<and> port_open env ip SSH_PORT) \<or> ssh_session env ip = SshFails) \<and>
      (\<not> (wmi_available env \<and> port_open env ip WINRM_PORT) \<or> wmi_session env ip = None) \<and>
      ping env ip \<noteq> PingExit 0"
  show "assess_loop env assessed (ds1 @ JObj device # ds2) = assess_loop env assessed (ds1 @ ds2)"
  proof (rule assess_loop_skip)
    fix acc
    from a have 1: "\<not> (paramiko_available env \<and> port_open env ip SSH_PORT) \<or> ssh_session env ip = SshFails"
      and 2: "\<not> (wmi_available env \<and> port_open env ip WINRM_PORT) \<or> wmi_session env ip = None"
      and 3: "ping env ip \<noteq> PingExit 0" and 4: "ip = dict_get device ''ip_address''"
      by auto
    show "assess_one env acc (JObj device) = Inr acc"
      by (rule silent_device_skipped[OF 1 2 3 4])
  qed
next
  assume "assess_device env (dict_get device ''ip_address'') = Inl e"
  then show "assess_loop env assessed (ds1 @ JObj device # ds2) = assess_loop env assessed (ds1 @ ds2)"
    by (intro assess_loop_skip raising_device_skipped)
qed

lemma unassessable_device_examples:
  "list_all is_object [JObj plain_device, JObj web_device]
   \<and> (\<exists>result. assess_loop silent_env [] [JObj plain_device, JObj web_device] = Inr result)
   \<and> ssh_session silent_env (JStr ''10.0.0.8'') = SshFails
   \<and> \<not> wmi_available silent_env
   \<and> ping silent_env (JStr ''10.0.0.8'') = PingExit 1
   \<and> assess_loop silent_env [] [JObj plain_device] = Inr []
   \<and> assess_device broken_client_env (JStr ''10.0.0.8'') = Inl OtherError
   \<and> assess_loop broken_client_env [] [JObj plain_device] = Inr []"
proof -
  have o: "list_all is_object [JObj plain_device, JObj web_device]" by simp
  have ip: "JStr ''10.0.0.8'' = dict_get plain_device ''ip_address''"
    by (simp add: plain_device_def dict_get_def)
  have s: "ssh_session silent_env (JStr ''10.0.0.8'') = SshFails" "\<not> wmi_available silent_env"
    "ping silent_env (JStr ''10.0.0.8'') = PingExit 1"
    by (simp_all add: silent_env_def)
  have r: "assess_device broken_client_env (dict_get plain_device ''ip_address'') = Inl OtherError"
    by (simp add: ip[symmetric] assess_device_def assess_via_ssh_def broken_client_env_def SSH_PORT_def)
  note t1 = unassessable_device_is_dropped[of "[JObj plain_device, JObj web_device]" silent_env "[]"
      "JStr ''10.0.0.8''" plain_device "[]" "[]" OtherError]
  note t2 = unassessable_device_is_dropped[of "[]" broken_client_env "[]"
      "JStr ''10.0.0.8''" plain_device "[]" "[]" OtherError]
  have r': "assess_device broken_client_env (JStr ''10.0.0.8'') = Inl OtherError"
    using r unfolding ip[symmetric] .
  have a1: "assess_loop silent_env [] [JObj plain_device] = Inr []"
    using t1 ip s by simp
  have a2: "assess_loop broken_client_env [] [JObj plain_device] = Inr []"
    using t2 r by simp
  have a3: "\<exists>result. assess_loop silent_env [] [JObj plain_device, JObj web_device] = Inr result"
    using t1 o by blast
  from o a3 s a1 r' a2 show ?thesis by (intro conjI)
qed

lemma scanned_device:
  "assess_all_devices ping_only_env (JList [JObj plain_device]) =
     Inr [dict_merge plain_device
            [(''assessment_method'', JStr ''basic_scan''),
             (''operating_system'', JObj [(''type'', JStr ''linux'')]),
             (''network'', JObj [(''open_ports'', JList [JInt 22])]),
             (''assessment_timestamp'', JStr ''2024-05-01T10:00:00'')]]"
  by (simp add: assess_all_devices_def plain_device_def dict_get_def assess_device_def
      assess_via_ssh_def assess_via_basic_scan_def common_ports_def guess_os_type_def
      ping_only_env_def SSH_PORT_def WINRM_PORT_def no_assessment_def Let_def)

text \<open>
  C7. The loop of \<open>assess_all_devices\<close> wraps every device in a \<open>try\<close> block, so
  that an exception ends that device only. Its handler builds the message with
  \<open>device.get\<close> again: for an element of the loaded list that is not an object the
  first \<open>device.get\<close> raises, the handler raises a second time, and the exception
  leaves the loop. Here the inventory file holds a bare address followed by a device
  record that, alone, is assessed by the basic scan: the batch ends with
  \<open>AttributeError\<close> before it reaches the record, and the run ends with status 1 and
  no artifact.
\<close>

theorem non_object_element_aborts_the_batch:
  "assess_all_devices ping_only_env (JList [JObj plain_device]) =
     Inr [dict_merge plain_device
            [(''assessment_method'', JStr ''basic_scan''),
             (''operating_system'', JObj [(''type'', JStr ''linux'')]),
             (''network'', JObj [(''open_ports'', JList [JInt 22])]),
             (''assessment_timestamp'', JStr ''2024-05-01T10:00:00'')]]
   \<and> assess_all_devices ping_only_env (JList [JStr ''10.0.0.1'', JObj plain_device]) =
       Inl AttributeError
   \<and> assessment_main
         (Some (''devices.json'', Some (Content (JList [JStr ''10.0.0.1'', JObj plain_device]))))
         [] ping_only_env True =
       \<lparr>exit_status = 1, messages = [''Loaded devices from inventory'', ''Traceback''],
        artifact = None\<rparr>"
proof -
  have 2: "assess_all_devices ping_only_env (JList [JStr ''10.0.0.1'', JObj plain_device]) =
       Inl AttributeError"
    by (simp add: assess_all_devices_def)
  have 3: "assessment_main
         (Some (''devices.json'', Some (Content (JList [JStr ''10.0.0.1'', JObj plain_device]))))
         [] ping_only_env True =
       \<lparr>exit_status = 1, messages = [''Loaded devices from inventory'', ''Traceback''],
        artifact = None\<rparr>"
    by (simp add: assessment_main_def find_inventory_file_def given_path_def load_inventory_def 2)
  from scanned_device 2 3 show ?thesis by (intro conjI)
qed

lemma assess_nothing: "assess_all_devices env (JList []) = Inr []"
  by (simp add: assess_all_devices_def)

lemma assessment_without_input:
  assumes "glob_files ''network_discovery_'' ''.json'' output_dir = []"
  shows "assessment_main None output_dir env save_ok =
           \<lparr>exit_status = 0,
            messages = [''Inventory file not found'', ''No devices were successfully assessed''],
            artifact = None\<rparr>"
  using assms
  by (simp add: assessment_main_def find_inventory_file_def given_path_def load_inventory_def assess_nothing)

lemma generation_without_input:
  assumes "input_dir = None \<or>
           (\<exists>files. input_dir = Some files \<and>
              glob_files ''hardware_assessment_'' ''.json'' files = [] \<and>
              glob_files ''network_discovery_'' ''.json'' files = [])"
  shows "exit_status (inventory_main input_dir save_ok) = 1
       \<and> last (messages (inventory_main input_dir save_ok)) = ''Failed to load discovered devices''
       \<and> artifact (inventory_main input_dir save_ok) = None"
  using assms
  by (auto simp: inventory_main_def load_discovered_devices_def)

text \<open>
  C3 (as the code has it). With no input directory, or with no file of either naming
  pattern in it, the inventory-generation entry point ends with status 1, its last
  message being "Failed to load discovered devices", and writes nothing. With no file
  given and no file of the discovery pattern in the known directory, the assessment
  entry point reports "Inventory file not found" and "No devices were successfully
  assessed", writes nothing and ends with status 0.
\<close>

theorem input_not_found_outcomes:
  "((input_dir = None \<or>
      (\<exists>files. input_dir = Some files \<and>
         glob_files ''hardware_assessment_'' ''.json'' files = [] \<and>
         glob_files ''network_discovery_'' ''.json'' files = []))
     \<longrightarrow> exit_status (inventory_main input_dir save_ok) = 1
       \<and> last (messages (inventory_main input_dir save_ok)) = ''Failed to load discovered devices''
       \<and> artifact (inventory_main input_dir save_ok) = None)
   \<and> (glob_files ''network_discovery_'' ''.json'' output_dir = []
     \<longrightarrow> assessment_main None output_dir env save_ok' =
           \<lparr>exit_status = 0,
            messages = [''Inventory file not found'', ''No devices were successfully assessed''],
            artifact = None\<rparr>)"
  using generation_without_input[of input_dir save_ok]
    assessment_without_input[of output_dir env save_ok']
  by blast

theorem input_not_found_outcomes_witness:
  "glob_files ''hardware_assessment_'' ''.json'' unrelated_files = []
   \<and> glob_files ''network_discovery_'' ''.json'' unrelated_files = []
   \<and> exit_status (inventory_main (Some unrelated_files) True) = 1
   \<and> last (messages (inventory_main (Some unrelated_files) True)) = ''Failed to load discovered devices''
   \<and> exit_status (inventory_main None True) = 1
   \<and> assessment_main None unrelated_files ping_only_env True =
           \<lparr>exit_status = 0,
            messages = [''Inventory file not found'', ''No devices were successfully assessed''],
            artifact = None\<rparr>"
proof -
  have g: "glob_files ''hardware_assessment_'' ''.json'' unrelated_files = []"
    "glob_files ''network_discovery_'' ''.json'' unrelated_files = []"
    by (simp_all add: glob_files_def glob_match_def unrelated_files_def)
  note t1 = input_not_found_outcomes[of "Some unrelated_files" True unrelated_files ping_only_env True]
  note t2 = input_not_found_outcomes[of None True unrelated_files ping_only_env True]
  from g t1 t2 show ?thesis by blast
qed

text \<open>The assessment entry point without any input: the exit status is 0.\<close>

theorem assessment_without_input_ends_with_status_zero:
  "glob_files ''network_discovery_'' ''.json'' unrelated_files = []
   \<and> exit_status (assessment_main None unrelated_files ping_only_env True) = 0"
  by (simp add: glob_files_def glob_match_def unrelated_files_def assessment_main_def
      find_inventory_file_def given_path_def load_inventory_def assess_nothing)

subsection \<open>Discovery\<close>

lemma digit_value_snoc: "digit_value (s @ [c]) = 10 * digit_value s + (of_char c - 48)"
  by (simp add: digit_value_def)

lemma of_char_digit: "(d::nat) < 10 \<Longrightarrow> (of_char (char_of (48 + d) :: char) :: nat) = 48 + d"
  by simp

lemma digit_value_string_of_nat: "digit_value (string_of_nat n) = n"
proof (induction n rule: string_of_nat.induct)
  case (1 n)
  show ?case
  proof (cases "n < 10")
    case True
    then show ?thesis
      by (subst string_of_nat.simps) (simp add: digit_value_def)
  next
    case False
    have m: "n mod 10 < 10" by simp
    from False 1 have "digit_value (string_of_nat (n div 10)) = n div 10" by simp
    with False show ?thesis
      by (subst string_of_nat.simps) (simp add: digit_value_snoc of_char_digit[OF m])
  qed
qed

lemma string_of_nat_inj: "string_of_nat a = string_of_nat b \<Longrightarrow> a = b"
  using digit_value_string_of_nat by metis

lemma digit_not_dot: "(d::nat) < 10 \<Longrightarrow> char_of (48 + d) \<noteq> CHR ''.''"
proof
  assume d: "d < 10" and e: "char_of (48 + d) = CHR ''.''"
  from e have "(of_char (char_of (48 + d) :: char) :: nat) = of_char CHR ''.''" by simp
  with d show False by (simp only: of_char_digit) simp
qed

lemma no_dot_in_number: "CHR ''.'' \<notin> set (string_of_nat n)"
proof (induction n rule: string_of_nat.induct)
  case (1 n)
  show ?case
  proof (cases "n < 10")
    case True
    then show ?thesis
      using digit_not_dot[of n] by (subst string_of_nat.simps) auto
  next
    case False
    have m: "n mod 10 < 10" by simp
    from False 1 have "CHR ''.'' \<notin> set (string_of_nat (n div 10))" by simp
    with False show ?thesis
      using digit_not_dot[OF m] by (subst string_of_nat.simps) auto
  qed
qed

lemma before_dot:
  "CHR ''.'' \<notin> set xs \<Longrightarrow> takeWhile (\<lambda>c. c \<noteq> CHR ''.'') (xs @ CHR ''.'' # ys) = xs"
  by (induction xs) auto

lemma split_at_dot:
  assumes "CHR ''.'' \<notin> set xs" and "CHR ''.'' \<notin> set xs'"
    and "xs @ CHR ''.'' # ys = xs' @ CHR ''.'' # ys'"
  shows "xs = xs' \<and> ys = ys'"
proof -
  have "xs = xs'"
    using before_dot[OF assms(1), of ys] before_dot[OF assms(2), of ys'] assms(3) by simp
  with assms(3) show ?thesis by simp
qed

lemma ip_str_octets:
  assumes "ip_str a = ip_str b"
  shows "a div 16777216 mod 256 = b div 16777216 mod 256"
    and "a div 65536 mod 256 = b div 65536 mod 256"
    and "a div 256 mod 256 = b div 256 mod 256"
    and "a mod 256 = b mod 256"
proof -
  let ?s = string_of_nat
  from assms have e: "?s (a div 16777216 mod 256) @ CHR ''.'' #
       (?s (a div 65536 mod 256) @ CHR ''.'' # (?s (a div 256 mod 256) @ CHR ''.'' # ?s (a mod 256)))
     = ?s (b div 16777216 mod 256) @ CHR ''.'' #
       (?s (b div 65536 mod 256) @ CHR ''.'' # (?s (b div 256 mod 256) @ CHR ''.'' # ?s (b mod 256)))"
    unfolding ip_str_def by simp
  note 1 = split_at_dot[OF no_dot_in_number no_dot_in_number e]
  note 2 = split_at_dot[OF no_dot_in_number no_dot_in_number conjunct2[OF 1]]
  note 3 = split_at_dot[OF no_dot_in_number no_dot_in_number conjunct2[OF 2]]
  show "a div 16777216 mod 256 = b div 16777216 mod 256"
    by (rule string_of_nat_inj[OF conjunct1[OF 1]])
  show "a div 65536 mod 256 = b div 65536 mod 256"
    by (rule string_of_nat_inj[OF conjunct1[OF 2]])
  show "a div 256 mod 256 = b div 256 mod 256"
    by (rule string_of_nat_inj[OF conjunct1[OF 3]])
  show "a mod 256 = b mod 256"
    by (rule string_of_nat_inj[OF conjunct2[OF 3]])
qed

lemma value_of_octets:
  fixes a :: nat
  assumes "a < 4294967296"
  shows "a = 16777216 * (a div 16777216 mod 256) + (65536 * (a div 65536 mod 256)
           + (256 * (a div 256 mod 256) + a mod 256))"
proof -
  have 1: "a mod 65536 = 256 * (a div 256 mod 256) + a mod 256"
    using mod_mult2_eq[of a 256 256] by simp
  have 2: "a mod 16777216 = 65536 * (a div 65536 mod 256) + a mod 65536"
    using mod_mult2_eq[of a 65536 256] by simp
  have 3: "a mod 4294967296 = 16777216 * (a div 16777216 mod 256) + a mod 16777216"
    using mod_mult2_eq[of a 16777216 256] by simp
  from assms have "a = a mod 4294967296" by simp
  with 1 2 3 show ?thesis by simp
qed

lemma ip_str_inj:
  assumes "a < 2 ^ 32" and "b < 2 ^ 32" and "ip_str a = ip_str b"
  shows "a = b"
proof -
  from assms(1,2) have a: "a < 4294967296" and b: "b < 4294967296" by simp_all
  show ?thesis
    by (subst value_of_octets[OF a], subst value_of_octets[OF b])
       (simp only: ip_str_octets[OF assms(3)])
qed

lemma arp_device_record: "arp_record_of ip (arp_device env (ip_str ip) h m)"
  by (simp add: arp_record_of_def arp_device_def)

lemma arp_answers_appends:
  "\<exists>new. snd (arp_answers env ip ds macs) = ds @ new \<and> (\<forall>d \<in> set new. arp_record_of ip d)
         \<and> arp_answers env ip [] macs = (fst (arp_answers env ip ds macs), new)"
proof (induction macs arbitrary: ds)
  case Nil
  show ?case by simp
next
  case (Cons m macs)
  show ?case
  proof (cases "gethostbyaddr env ip")
    case LookupRaises
    then show ?thesis by simp
  next
    case HostError
    let ?r = "arp_device env (ip_str ip) ''Unknown'' m"
    from Cons[of "ds @ [?r]"] obtain new where
      n: "snd (arp_answers env ip (ds @ [?r]) macs) = (ds @ [?r]) @ new"
      "\<forall>d \<in> set new. arp_record_of ip d"
      "arp_answers env ip [] macs = (fst (arp_answers env ip (ds @ [?r]) macs), new)"
      by blast
    from Cons[of "[?r]"] obtain new' where
      n': "snd (arp_answers env ip [?r] macs) = [?r] @ new'"
      "arp_answers env ip [] macs = (fst (arp_answers env ip [?r] macs), new')"
      by blast
    from n(3) n'(2) have eq: "new' = new"
      "fst (arp_answers env ip [?r] macs) = fst (arp_answers env ip (ds @ [?r]) macs)"
      by simp_all
    have "snd (arp_answers env ip ds (m # macs)) = ds @ (?r # new)"
      using HostError n(1) by simp
    moreover have "\<forall>d \<in> set (?r # new). arp_record_of ip d"
      using n(2) arp_device_record by simp
    moreover have "arp_answers env ip [] (m # macs) = (fst (arp_answers env ip ds (m # macs)), ?r # new)"
      using HostError n'(1) eq by (simp add: prod_eq_iff)
    ultimately show ?thesis by blast
  next
    case (Resolved h)
    let ?r = "arp_device env (ip_str ip) h m"
    from Cons[of "ds @ [?r]"] obtain new where
      n: "snd (arp_answers env ip (ds @ [?r]) macs) = (ds @ [?r]) @ new"
      "\<forall>d \<in> set new. arp_record_of ip d"
      "arp_answers env ip [] macs = (fst (arp_answers env ip (ds @ [?r]) macs), new)"
      by blast
    from Cons[of "[?r]"] obtain new' where
      n': "snd (arp_answers env ip [?r] macs) = [?r] @ new'"
      "arp_answers env ip [] macs = (fst (arp_answers env ip [?r] macs), new')"
      by blast
    from n(3) n'(2) have eq: "new' = new"
      "fst (arp_answers env ip [?r] macs) = fst (arp_answers env ip (ds @ [?r]) macs)"
      by simp_all
    have "snd (arp_answers env ip ds (m # macs)) = ds @ (?r # new)"
      using Resolved n(1) by simp
    moreover have "\<forall>d \<in> set (?r # new). arp_record_of ip d"
      using n(2) arp_device_record by simp
    moreover have "arp_answers env ip [] (m # macs) = (fst (arp_answers env ip ds (m # macs)), ?r # new)"
      using Resolved n'(1) eq by (simp add: prod_eq_iff)
    ultimately show ?thesis by blast
  qed
qed

lemma arp_answers_from_empty:
  "arp_answers env ip ds macs =
     (fst (arp_answers env ip [] macs), ds @ snd (arp_answers env ip [] macs))"
proof -
  from arp_answers_appends[of env ip ds macs] obtain new where
    "snd (arp_answers env ip ds macs) = ds @ new"
    "arp_answers env ip [] macs = (fst (arp_answers env ip ds macs), new)"
    by blast
  then show ?thesis by (simp add: prod_eq_iff)
qed

lemma arp_answers_records:
  "d \<in> set (snd (arp_answers env ip [] macs)) \<Longrightarrow> arp_record_of ip d"
  using arp_answers_appends[of env ip "[]" macs] by auto

lemma arp_hosts_from_empty:
  "arp_hosts env net ds ips =
     (fst (arp_hosts env net [] ips), ds @ snd (arp_hosts env net [] ips))"
proof (induction ips arbitrary: ds)
  case Nil
  show ?case by simp
next
  case (Cons ip ips)
  show ?case
  proof (cases "ip = network_address net \<or> ip = broadcast_address net")
    case True
    then show ?thesis using Cons[of ds] by auto
  next
    case False
    show ?thesis
    proof (cases "srp env ip")
      case ProbeRaises
      with False show ?thesis by simp
    next
      case (Answers result)
      obtain e new1 where a0: "arp_answers env ip [] result = (e, new1)"
        by (cases "arp_answers env ip [] result")
      then have a: "arp_answers env ip ds result = (e, ds @ new1)"
        using arp_answers_from_empty[of env ip ds result] by simp
      show ?thesis
      proof (cases e)
        case (Some err)
        with False Answers a a0 show ?thesis by simp
      next
        case None
        have 1: "arp_hosts env net (ds @ new1) ips =
            (fst (arp_hosts env net [] ips), (ds @ new1) @ snd (arp_hosts env net [] ips))"
          by (rule Cons)
        have 2: "arp_hosts env net new1 ips =
            (fst (arp_hosts env net [] ips), new1 @ snd (arp_hosts env net [] ips))"
          by (rule Cons)
        from False Answers a a0 None 1 2 show ?thesis by simp
      qed
    qed
  qed
qed

lemma arp_hosts_records:
  "d \<in> set (snd (arp_hosts env net [] ips)) \<Longrightarrow>
     \<exists>ip \<in> set ips. ip \<noteq> network_address net \<and> ip \<noteq> broadcast_address net \<and> arp_record_of ip d"
proof (induction ips)
  case Nil
  then show ?case by simp
next
  case (Cons ip ips)
  show ?case
  proof (cases "ip = network_address net \<or> ip = broadcast_address net")
    case True
    with Cons show ?thesis by auto
  next
    case False
    show ?thesis
    proof (cases "srp env ip")
      case ProbeRaises
      with False Cons.prems show ?thesis by simp
    next
      case (Answers result)
      obtain e new1 where a0: "arp_answers env ip [] result = (e, new1)"
        by (cases "arp_answers env ip [] result")
      have new1: "x \<in> set new1 \<Longrightarrow> arp_record_of ip x" for x
        using arp_answers_records[of x env ip result] a0 by simp
      show ?thesis
      proof (cases e)
        case (Some err)
        with False Answers a0 Cons.prems have "d \<in> set new1" by simp
        with new1 False show ?thesis by auto
      next
        case None
        have "arp_hosts env net new1 ips =
            (fst (arp_hosts env net [] ips), new1 @ snd (arp_hosts env net [] ips))"
          by (rule arp_hosts_from_empty)
        with False Answers a0 None Cons.prems
        have "d \<in> set new1 \<or> d \<in> set (snd (arp_hosts env net [] ips))" by simp
        then show ?thesis
        proof
          assume "d \<in> set new1"
          with new1 False show ?thesis by auto
        next
          assume "d \<in> set (snd (arp_hosts env net [] ips))"
          from Cons.IH[OF this] show ?thesis by auto
        qed
      qed
    qed
  qed
qed

lemma scan_with_arp_from_empty:
  "snd (scan_with_arp env subnet ds) = ds @ snd (scan_with_arp env subnet [])"
proof (cases "scapy_available env")
  case False
  then show ?thesis by (simp add: scan_with_arp_def)
next
  case True
  show ?thesis
  proof (cases "IPv4Network subnet")
    case (Inl e)
    with True show ?thesis by (simp add: scan_with_arp_def)
  next
    case (Inr net)
    have "arp_hosts env net ds (hosts net) =
        (fst (arp_hosts env net [] (hosts net)), ds @ snd (arp_hosts env net [] (hosts net)))"
      by (rule arp_hosts_from_empty)
    with True Inr show ?thesis
      by (cases "fst (arp_hosts env net [] (hosts net))";
          cases "arp_hosts env net [] (hosts net)")
         (simp_all add: scan_with_arp_def)
  qed
qed

lemma scan_with_arp_returns:
  "fst (scan_with_arp env subnet ds) = [] \<or>
   fst (scan_with_arp env subnet ds) = snd (scan_with_arp env subnet ds)"
  by (auto simp: scan_with_arp_def split: sum.splits prod.splits option.splits)

lemma valid_network:
  assumes "IPv4Network subnet = Inr net"
  shows "network_address net < 2 ^ 32" and "prefixlen net \<le> 32"
    and "network_address net mod 2 ^ (32 - prefixlen net) = 0"
  using assms by (auto simp: IPv4Network_def split: prod.splits if_splits)

lemma broadcast_in_range:
  assumes "IPv4Network subnet = Inr net"
  shows "broadcast_address net < 2 ^ 32"
proof -
  let ?h = "32 - prefixlen net"
  let ?na = "network_address net"
  note v = valid_network[OF assms]
  from v(3) obtain k where k: "?na = k * 2 ^ ?h" by (auto simp: mod_eq_0_iff_dvd)
  have p: "(2::nat) ^ 32 = 2 ^ prefixlen net * 2 ^ ?h"
    using v(2) by (simp add: power_add[symmetric])
  from v(1) have "k * 2 ^ ?h < 2 ^ prefixlen net * 2 ^ ?h" unfolding k p .
  then have "k < 2 ^ prefixlen net" by simp
  then have "Suc k \<le> 2 ^ prefixlen net" by simp
  then have "Suc k * 2 ^ ?h \<le> 2 ^ prefixlen net * 2 ^ ?h"
    by (rule mult_le_mono1)
  then have "?na + 2 ^ ?h \<le> 2 ^ 32" unfolding k p by simp
  moreover have "(0::nat) < 2 ^ ?h" by simp
  ultimately show ?thesis unfolding broadcast_address_def by linarith
qed

lemma hosts_in_network:
  "ip \<in> set (hosts net) \<Longrightarrow> network_address net \<le> ip \<and> ip \<le> broadcast_address net"
proof -
  have "(1::nat) \<le> 2 ^ (32 - prefixlen net)" by simp
  moreover have "prefixlen net = 31 \<Longrightarrow> (2::nat) ^ (32 - prefixlen net) = 2" by simp
  moreover assume "ip \<in> set (hosts net)"
  ultimately show ?thesis
    by (auto simp: hosts_def broadcast_address_def split: if_splits)
qed

lemma small_subnet_valid:
  "IPv4Network small_subnet = Inr \<lparr>network_address = 167772160, prefixlen = 30\<rparr>"
  by (simp add: IPv4Network_def small_subnet_def)

lemma small_subnet_hosts:
  "hosts \<lparr>network_address = 167772160, prefixlen = 30\<rparr> = [167772161, 167772162]"
proof -
  have "[167772161 ..< 167772163] = [167772161, 167772162::nat]"
    by (simp add: upt_rec)
  then show ?thesis by (simp add: hosts_def broadcast_address_def)
qed

lemma digit_chars:
  "char_of (48::nat) = CHR ''0''" "char_of (49::nat) = CHR ''1''" "char_of (50::nat) = CHR ''2''"
  "char_of (51::nat) = CHR ''3''" "char_of (52::nat) = CHR ''4''" "char_of (53::nat) = CHR ''5''"
  "char_of (54::nat) = CHR ''6''" "char_of (55::nat) = CHR ''7''" "char_of (56::nat) = CHR ''8''"
  "char_of (57::nat) = CHR ''9''"
  by (simp_all add: char_of_eq_iff)

lemma ip_str_examples:
  "ip_str 167772161 = ''10.0.0.1''" "ip_str 167772162 = ''10.0.0.2''"
  by (simp_all add: ip_str_def string_of_nat.simps digit_chars)

lemma answering_scan:
  "scan_with_arp answering_env small_subnet [] =
     ([arp_device answering_env ''10.0.0.2'' ''Unknown'' ''aa:bb:cc:dd:ee:02''],
      [arp_device answering_env ''10.0.0.2'' ''Unknown'' ''aa:bb:cc:dd:ee:02''])"
  by (simp add: scan_with_arp_def small_subnet_valid small_subnet_hosts broadcast_address_def
      ip_str_examples answering_env_def)

text \<open>
  C9 (as the code has it). The method returns \<open>self.discovered_devices\<close>, the list
  of the whole engine. For every subnet that \<open>IPv4Network\<close> accepts, the link-layer
  scan only appends to that list and returns it, or the empty list when the scan raised:
  the records of methods run earlier on the same engine are returned unchanged. Every
  record the scan itself appends has as \<open>ip_address\<close> the text of an address strictly
  between the network address and the broadcast address, and that text is not the text
  of any address outside the subnet, nor of the network or the broadcast address.
\<close>

theorem arp_records_are_usable_hosts:
  assumes "IPv4Network subnet = Inr net"
  shows "\<exists>new. snd (scan_with_arp env subnet ds0) = ds0 @ new
        \<and> (fst (scan_with_arp env subnet ds0) = [] \<or> fst (scan_with_arp env subnet ds0) = ds0 @ new)
        \<and> (\<forall>d \<in> set new.
             (\<exists>ip. network_address net < ip \<and> ip < broadcast_address net \<and>
                   map_of d ''ip_address'' = Some (JStr (ip_str ip))) \<and>
             (\<forall>x < 2 ^ 32. \<not> (network_address net < x \<and> x < broadcast_address net) \<longrightarrow>
                   map_of d ''ip_address'' \<noteq> Some (JStr (ip_str x))))"
proof -
  let ?new = "snd (scan_with_arp env subnet [])"
  have 1: "snd (scan_with_arp env subnet ds0) = ds0 @ ?new"
    by (rule scan_with_arp_from_empty)
  have 2: "fst (scan_with_arp env subnet ds0) = [] \<or> fst (scan_with_arp env subnet ds0) = ds0 @ ?new"
    using scan_with_arp_returns[of env subnet ds0] unfolding 1 .
  have 3: "(\<exists>ip. network_address net < ip \<and> ip < broadcast_address net \<and>
                   map_of d ''ip_address'' = Some (JStr (ip_str ip))) \<and>
             (\<forall>x < 2 ^ 32. \<not> (network_address net < x \<and> x < broadcast_address net) \<longrightarrow>
                   map_of d ''ip_address'' \<noteq> Some (JStr (ip_str x)))"
    if d: "d \<in> set ?new" for d
  proof -
    from d assms have "d \<in> set (snd (arp_hosts env net [] (hosts net)))"
      by (auto simp: scan_with_arp_def split: if_splits prod.splits option.splits)
    from arp_hosts_records[OF this] obtain ip where ip: "ip \<in> set (hosts net)"
      "ip \<noteq> network_address net" "ip \<noteq> broadcast_address net" "arp_record_of ip d"
      by blast
    from hosts_in_network[OF ip(1)] ip(2,3)
    have r: "network_address net < ip" "ip < broadcast_address net" by simp_all
    from ip(4) have a: "map_of d ''ip_address'' = Some (JStr (ip_str ip))"
      by (simp add: arp_record_of_def)
    from r(2) broadcast_in_range[OF assms] have lt: "ip < 2 ^ 32" by simp
    have "map_of d ''ip_address'' \<noteq> Some (JStr (ip_str x))"
      if x: "x < 2 ^ 32" "\<not> (network_address net < x \<and> x < broadcast_address net)" for x
    proof
      assume "map_of d ''ip_address'' = Some (JStr (ip_str x))"
      with a have "ip_str x = ip_str ip" by simp
      from ip_str_inj[OF x(1) lt this] r x(2) show False by simp
    qed
    with r a show ?thesis by blast
  qed
  from 1 2 3 show ?thesis by blast
qed

theorem arp_records_are_usable_hosts_witness:
  "IPv4Network small_subnet = Inr \<lparr>network_address = 167772160, prefixlen = 30\<rparr>
   \<and> scan_with_arp answering_env small_subnet [] =
       ([arp_device answering_env ''10.0.0.2'' ''Unknown'' ''aa:bb:cc:dd:ee:02''],
        [arp_device answering_env ''10.0.0.2'' ''Unknown'' ''aa:bb:cc:dd:ee:02''])
   \<and> snd (scan_with_arp answering_env small_subnet [nmap_device answering_env printer_host]) =
       [nmap_device answering_env printer_host,
        arp_device answering_env ''10.0.0.2'' ''Unknown'' ''aa:bb:cc:dd:ee:02'']
   \<and> map_of (arp_device answering_env ''10.0.0.2'' ''Unknown'' ''aa:bb:cc:dd:ee:02'') ''ip_address''
         \<noteq> Some (JStr (ip_str 167772160))
   \<and> map_of (arp_device answering_env ''10.0.0.2'' ''Unknown'' ''aa:bb:cc:dd:ee:02'') ''ip_address''
         \<noteq> Some (JStr (ip_str 167772163))
   \<and> map_of (arp_device answering_env ''10.0.0.2'' ''Unknown'' ''aa:bb:cc:dd:ee:02'') ''ip_address''
         \<noteq> Some (JStr (ip_str 167772164))"
proof -
  let ?net = "\<lparr>network_address = 167772160, prefixlen = 30\<rparr>"
  let ?rec = "arp_device answering_env ''10.0.0.2'' ''Unknown'' ''aa:bb:cc:dd:ee:02''"
  from arp_records_are_usable_hosts[OF small_subnet_valid, of answering_env "[]"]
  have all: "\<forall>x < 2 ^ 32. \<not> (network_address ?net < x \<and> x < broadcast_address ?net) \<longrightarrow>
         map_of ?rec ''ip_address'' \<noteq> Some (JStr (ip_str x))"
    unfolding answering_scan by simp
  have bc: "broadcast_address ?net = 167772163"
    by (simp add: broadcast_address_def)
  have 0: "snd (scan_with_arp answering_env small_subnet [nmap_device answering_env printer_host]) =
       [nmap_device answering_env printer_host, ?rec]"
    unfolding scan_with_arp_from_empty[of answering_env small_subnet
        "[nmap_device answering_env printer_host]"] answering_scan by simp
  have 1: "map_of ?rec ''ip_address'' \<noteq> Some (JStr (ip_str 167772160))"
    using all[rule_format, of 167772160] by simp
  have 2: "map_of ?rec ''ip_address'' \<noteq> Some (JStr (ip_str 167772163))"
    using all[rule_format, of 167772163] bc by simp
  have 3: "map_of ?rec ''ip_address'' \<noteq> Some (JStr (ip_str 167772164))"
    using all[rule_format, of 167772164] bc by simp
  from small_subnet_valid answering_scan 0 1 2 3 show ?thesis by (intro conjI)
qed

lemma point_to_point_valid:
  "IPv4Network point_to_point = Inr \<lparr>network_address = 167772160, prefixlen = 31\<rparr>"
  by (simp add: IPv4Network_def point_to_point_def)

lemma network_address_text: "ip_str 167772160 = ''10.0.0.0''"
  by (simp add: ip_str_def string_of_nat.simps digit_chars)

text \<open>
  On the point-to-point link 10.0.0.0/31 the scan method finds the host 10.0.0.0, which
  is the network address. The link-layer scan, run next on the same engine as \<open>main\<close>
  does, probes nothing (both addresses are skipped) and returns the list with that record.
\<close>

theorem arp_scan_returns_earlier_records:
  "IPv4Network point_to_point = Inr \<lparr>network_address = 167772160, prefixlen = 31\<rparr>
   \<and> ip_str 167772160 = ''10.0.0.0''
   \<and> snd (scan_with_nmap point_to_point_env []) = [nmap_device point_to_point_env gateway_host]
   \<and> fst (scan_with_arp point_to_point_env point_to_point
             [nmap_device point_to_point_env gateway_host])
       = [nmap_device point_to_point_env gateway_host]
   \<and> map_of (nmap_device point_to_point_env gateway_host) ''ip_address'' = Some (JStr ''10.0.0.0'')"
proof -
  have 3: "snd (scan_with_nmap point_to_point_env []) = [nmap_device point_to_point_env gateway_host]"
    by (simp add: scan_with_nmap_def point_to_point_env_def Let_def)
  have 4: "fst (scan_with_arp point_to_point_env point_to_point
             [nmap_device point_to_point_env gateway_host])
       = [nmap_device point_to_point_env gateway_host]"
    by (simp add: scan_with_arp_def point_to_point_valid hosts_def broadcast_address_def
        point_to_point_env_def)
  have 5: "map_of (nmap_device point_to_point_env gateway_host) ''ip_address'' = Some (JStr ''10.0.0.0'')"
    by (simp add: nmap_device_def gateway_host_def)
  from point_to_point_valid network_address_text 3 4 5 show ?thesis by (intro conjI)
qed

lemma unknown_on_host_error:
  "gethostbyaddr env ip = HostError \<Longrightarrow>
     arp_answers env ip ds macs = (None, ds @ map (arp_device env (ip_str ip) ''Unknown'') macs)"
  by (induction macs arbitrary: ds) simp_all

text \<open>
  C8 (as the code has it). In a link-layer scan, a reverse lookup that fails with
  \<open>socket.herror\<close> gives the hostname "Unknown" and the scan goes on; a request
  that nobody answers changes nothing and the scan goes on with the next address; a
  request that raises ends the scan there: the devices recorded so far stay in the list,
  no later address is probed, and the method returns the empty list.
\<close>

theorem arp_lookup_failure_and_probe_failure:
  "(gethostbyaddr env ip = HostError \<longrightarrow>
      arp_answers env ip ds macs = (None, ds @ map (arp_device env (ip_str ip) ''Unknown'') macs))
   \<and> (ip \<noteq> network_address net \<and> ip \<noteq> broadcast_address net \<and> srp env ip = Answers []
      \<longrightarrow> arp_hosts env net ds (ip # rest) = arp_hosts env net ds rest)
   \<and> (ip \<noteq> network_address net \<and> ip \<noteq> broadcast_address net \<and> srp env ip = ProbeRaises
      \<longrightarrow> arp_hosts env net ds (ip # rest) = (Some OtherError, ds))
   \<and> (scapy_available env \<and> IPv4Network subnet = Inr net \<and>
      fst (arp_hosts env net ds (hosts net)) \<noteq> None
      \<longrightarrow> fst (scan_with_arp env subnet ds) = [])"
proof (intro conjI impI)
  assume "gethostbyaddr env ip = HostError"
  then show "arp_answers env ip ds macs = (None, ds @ map (arp_device env (ip_str ip) ''Unknown'') macs)"
    by (rule unknown_on_host_error)
next
  assume "ip \<noteq> network_address net \<and> ip \<noteq> broadcast_address net \<and> srp env ip = Answers []"
  then show "arp_hosts env net ds (ip # rest) = arp_hosts env net ds rest"
    by simp
next
  assume "ip \<noteq> network_address net \<and> ip \<noteq> broadcast_address net \<and> srp env ip = ProbeRaises"
  then show "arp_hosts env net ds (ip # rest) = (Some OtherError, ds)"
    by simp
next
  assume "scapy_available env \<and> IPv4Network subnet = Inr net \<and>
      fst (arp_hosts env net ds (hosts net)) \<noteq> None"
  then show "fst (scan_with_arp env subnet ds) = []"
    by (cases "arp_hosts env net ds (hosts net)") (auto simp: scan_with_arp_def)
qed

lemma raising_scan: "scan_with_arp raising_probe_env small_subnet [] = ([], [])"
  by (simp add: scan_with_arp_def small_subnet_valid small_subnet_hosts broadcast_address_def
      raising_probe_env_def)

theorem arp_lookup_failure_and_probe_failure_witness:
  "gethostbyaddr answering_env 167772162 = HostError
   \<and> arp_answers answering_env 167772162 [] [''aa:bb:cc:dd:ee:02'']
       = (None, [arp_device answering_env ''10.0.0.2'' ''Unknown'' ''aa:bb:cc:dd:ee:02''])
   \<and> srp answering_env 167772161 = Answers []
   \<and> arp_hosts answering_env \<lparr>network_address = 167772160, prefixlen = 30\<rparr> [] [167772161, 167772162]
       = arp_hosts answering_env \<lparr>network_address = 167772160, prefixlen = 30\<rparr> [] [167772162]
   \<and> srp raising_probe_env 167772161 = ProbeRaises
   \<and> arp_hosts raising_probe_env \<lparr>network_address = 167772160, prefixlen = 30\<rparr> []
         [167772161, 167772162] = (Some OtherError, [])
   \<and> fst (scan_with_arp raising_probe_env small_subnet []) = []"
proof -
  let ?net = "\<lparr>network_address = 167772160, prefixlen = 30\<rparr>"
  have e: "gethostbyaddr answering_env 167772162 = HostError"
    "srp answering_env 167772161 = Answers []"
    "srp raising_probe_env 167772161 = ProbeRaises"
    "scapy_available raising_probe_env"
    by (simp_all add: answering_env_def raising_probe_env_def)
  have b: "(167772161::nat) \<noteq> network_address ?net" "(167772161::nat) \<noteq> broadcast_address ?net"
    by (simp_all add: broadcast_address_def)
  note t1 = arp_lookup_failure_and_probe_failure[of answering_env 167772162 "[]"
      "[''aa:bb:cc:dd:ee:02'']" ?net, unfolded ip_str_examples]
  note t2 = arp_lookup_failure_and_probe_failure[of answering_env 167772161 "[]" "[]" ?net "[167772162]"]
  note t3 = arp_lookup_failure_and_probe_failure[of raising_probe_env 167772161 "[]" "[]" ?net
      "[167772162]" small_subnet]
  have 1: "arp_answers answering_env 167772162 [] [''aa:bb:cc:dd:ee:02'']
       = (None, [arp_device answering_env ''10.0.0.2'' ''Unknown'' ''aa:bb:cc:dd:ee:02''])"
    using t1 e(1) by simp
  have 2: "arp_hosts answering_env ?net [] [167772161, 167772162]
       = arp_hosts answering_env ?net [] [167772162]"
    using t2 e(2) b by blast
  have 3: "arp_hosts raising_probe_env ?net [] [167772161, 167772162] = (Some OtherError, [])"
    using t3 e(3) b by blast
  have 4: "fst (scan_with_arp raising_probe_env small_subnet []) = []"
    using t3 e(4) small_subnet_valid 3 by (simp add: small_subnet_hosts)
  from e(1) 1 e(2) 2 e(3) 3 4 show ?thesis by (intro conjI)
qed

text \<open>
  In 10.0.0.0/30 the request for 10.0.0.1 raises and 10.0.0.2 would answer: the scan
  records nothing, so the second address was never probed.
\<close>

theorem raising_probe_ends_the_scan:
  "srp raising_probe_env 167772161 = ProbeRaises
   \<and> srp raising_probe_env 167772162 = Answers [''aa:bb:cc:dd:ee:02'']
   \<and> hosts \<lparr>network_address = 167772160, prefixlen = 30\<rparr> = [167772161, 167772162]
   \<and> scan_with_arp raising_probe_env small_subnet [] = ([], [])"
  using raising_scan small_subnet_hosts by (simp add: raising_probe_env_def)

lemma scan_with_nmap_from_empty:
  "snd (scan_with_nmap env ds) = ds @ snd (scan_with_nmap env [])"
  by (simp add: scan_with_nmap_def Let_def split: nmap_result.splits)

lemma get_dhcp_leases_from_empty:
  "snd (get_dhcp_leases env ds) = ds @ snd (get_dhcp_leases env [])"
  by (simp add: get_dhcp_leases_def Let_def split: lease_result.splits)

lemma nmap_records_method:
  "d \<in> set (snd (scan_with_nmap env [])) \<Longrightarrow> map_of d ''discovery_method'' = Some (JStr ''nmap'')"
  by (auto simp: scan_with_nmap_def Let_def nmap_device_def split: nmap_result.splits if_splits)

lemma dhcp_records_method:
  "d \<in> set (snd (get_dhcp_leases env [])) \<Longrightarrow> map_of d ''discovery_method'' = Some (JStr ''dhcp'')"
  by (auto simp: get_dhcp_leases_def Let_def dhcp_device_def split: lease_result.splits)

lemma arp_records_method:
  assumes "d \<in> set (snd (scan_with_arp env subnet []))"
  shows "map_of d ''discovery_method'' = Some (JStr ''arp'')"
proof (cases "IPv4Network subnet")
  case (Inl e)
  with assms show ?thesis by (simp add: scan_with_arp_def split: if_splits)
next
  case (Inr net)
  with assms have "d \<in> set (snd (arp_hosts env net [] (hosts net)))"
    by (auto simp: scan_with_arp_def split: if_splits prod.splits option.splits)
  from arp_hosts_records[OF this] show ?thesis
    by (auto simp: arp_record_of_def)
qed

lemma discover_parts:
  "discover args env =
     (if arg_nmap args \<or> arg_all args then snd (scan_with_nmap env []) else []) @
     (if arg_arp args \<or> arg_all args then snd (scan_with_arp env (arg_subnet args) []) else []) @
     (if arg_dhcp args \<or> arg_all args then snd (get_dhcp_leases env []) else [])"
proof -
  let ?d1 = "if arg_nmap args \<or> arg_all args then snd (scan_with_nmap env []) else []"
  let ?d2 = "if arg_arp args \<or> arg_all args then snd (scan_with_arp env (arg_subnet args) ?d1) else ?d1"
  let ?d3 = "if arg_dhcp args \<or> arg_all args then snd (get_dhcp_leases env ?d2) else ?d2"
  have 2: "?d2 = ?d1 @ (if arg_arp args \<or> arg_all args
                        then snd (scan_with_arp env (arg_subnet args) []) else [])"
    using scan_with_arp_from_empty[of env "arg_subnet args" ?d1] by simp
  have 3: "?d3 = ?d2 @ (if arg_dhcp args \<or> arg_all args then snd (get_dhcp_leases env []) else [])"
    using get_dhcp_leases_from_empty[of env ?d2] by simp
  have "discover args env = ?d3"
    by (simp add: discover_def Let_def)
  also note 3
  also note 2
  finally show ?thesis by simp
qed

text \<open>
  C1 (as the code has it). The engine has no merge step. The list a run leaves is the
  records of the scan method, then those of the link-layer method, then those of the
  lease table, for the methods that were selected; the number of records for an address
  is the sum of the numbers of reports of the methods, and every record carries the
  \<open>discovery_method\<close> (\<open>nmap\<close>, \<open>arp\<close>, \<open>dhcp\<close>) and the fields of the
  method that wrote it.
\<close>

theorem discovered_list_is_concatenation:
  "discover args env =
     (if arg_nmap args \<or> arg_all args then snd (scan_with_nmap env []) else []) @
     (if arg_arp args \<or> arg_all args then snd (scan_with_arp env (arg_subnet args) []) else []) @
     (if arg_dhcp args \<or> arg_all args then snd (get_dhcp_leases env []) else [])
   \<and> length (filter (has_address a) (discover args env)) =
     (if arg_nmap args \<or> arg_all args
      then length (filter (has_address a) (snd (scan_with_nmap env []))) else 0) +
     (if arg_arp args \<or> arg_all args
      then length (filter (has_address a) (snd (scan_with_arp env (arg_subnet args) []))) else 0) +
     (if arg_dhcp args \<or> arg_all args
      then length (filter (has_address a) (snd (get_dhcp_leases env []))) else 0)
   \<and> (\<forall>d \<in> set (snd (scan_with_nmap env [])). map_of d ''discovery_method'' = Some (JStr ''nmap''))
   \<and> (\<forall>d \<in> set (snd (scan_with_arp env (arg_subnet args) [])).
         map_of d ''discovery_method'' = Some (JStr ''arp''))
   \<and> (\<forall>d \<in> set (snd (get_dhcp_leases env [])). map_of d ''discovery_method'' = Some (JStr ''dhcp''))"
proof (intro conjI ballI)
  show "discover args env =
     (if arg_nmap args \<or> arg_all args then snd (scan_with_nmap env []) else []) @
     (if arg_arp args \<or> arg_all args then snd (scan_with_arp env (arg_subnet args) []) else []) @
     (if arg_dhcp args \<or> arg_all args then snd (get_dhcp_leases env []) else [])"
    by (rule discover_parts)
  show "length (filter (has_address a) (discover args env)) =
     (if arg_nmap args \<or> arg_all args
      then length (filter (has_address a) (snd (scan_with_nmap env []))) else 0) +
     (if arg_arp args \<or> arg_all args
      then length (filter (has_address a) (snd (scan_with_arp env (arg_subnet args) []))) else 0) +
     (if arg_dhcp args \<or> arg_all args
      then length (filter (has_address a) (snd (get_dhcp_leases env []))) else 0)"
    unfolding discover_parts by simp
qed (rule nmap_records_method arp_records_method dhcp_records_method, assumption)+

lemma answering_nmap:
  "scan_with_nmap answering_env [] = ([nmap_device answering_env printer_host],
                                      [nmap_device answering_env printer_host])"
  by (simp add: scan_with_nmap_def answering_env_def Let_def)

lemma answering_dhcp: "get_dhcp_leases answering_env [] = ([], [])"
  by (simp add: get_dhcp_leases_def answering_env_def)

lemma all_methods_flags: "arg_all all_methods" "arg_subnet all_methods = small_subnet"
  by (simp_all add: all_methods_def)

theorem discovered_list_is_concatenation_witness:
  "discover all_methods answering_env =
     [nmap_device answering_env printer_host,
      arp_device answering_env ''10.0.0.2'' ''Unknown'' ''aa:bb:cc:dd:ee:02'']
   \<and> length (filter (has_address ''10.0.0.2'') (discover all_methods answering_env)) = 2
   \<and> map_of (nmap_device answering_env printer_host) ''discovery_method'' = Some (JStr ''nmap'')
   \<and> map_of (arp_device answering_env ''10.0.0.2'' ''Unknown'' ''aa:bb:cc:dd:ee:02'')
        ''discovery_method'' = Some (JStr ''arp'')"
proof -
  note t = discovered_list_is_concatenation[of all_methods answering_env "''10.0.0.2''"]
  have h: "has_address ''10.0.0.2'' (nmap_device answering_env printer_host)"
    "has_address ''10.0.0.2'' (arp_device answering_env ''10.0.0.2'' ''Unknown'' ''aa:bb:cc:dd:ee:02'')"
    by (simp_all add: has_address_def nmap_device_def arp_device_def printer_host_def)
  from t h show ?thesis
    by (simp add: all_methods_flags answering_nmap answering_scan answering_dhcp)
qed

lemma answering_discover:
  "discover all_methods answering_env =
     [nmap_device answering_env printer_host,
      arp_device answering_env ''10.0.0.2'' ''Unknown'' ''aa:bb:cc:dd:ee:02'']"
  by (simp add: discover_parts all_methods_flags answering_nmap answering_scan answering_dhcp)

text \<open>
  The scan and the link-layer method both report 10.0.0.2: the list has two records for
  the address, one with the hostname of the scan and one with "Unknown".
\<close>

theorem same_address_twice_in_discovered_list:
  "discover all_methods answering_env =
     [nmap_device answering_env printer_host,
      arp_device answering_env ''10.0.0.2'' ''Unknown'' ''aa:bb:cc:dd:ee:02'']
   \<and> map_of (nmap_device answering_env printer_host) ''ip_address'' = Some (JStr ''10.0.0.2'')
   \<and> map_of (arp_device answering_env ''10.0.0.2'' ''Unknown'' ''aa:bb:cc:dd:ee:02'') ''ip_address''
       = Some (JStr ''10.0.0.2'')
   \<and> map_of (nmap_device answering_env printer_host) ''hostname'' = Some (JStr ''printer'')
   \<and> map_of (arp_device answering_env ''10.0.0.2'' ''Unknown'' ''aa:bb:cc:dd:ee:02'') ''hostname''
       = Some (JStr ''Unknown'')"
  using answering_discover by (simp add: nmap_device_def arp_device_def printer_host_def)

end
